theory Spec2Isabelle
  imports Complex_Main
begin

section \<open>Data model of the SAP smart charging integration\<close>

text \<open>
  The embedding follows \<^verbatim>\<open>src/SapSmartChargingIntegration.ts\<close> (the first, most recent
  version of the class in that file). JavaScript numbers are modelled as \<^typ>\<open>real\<close>
  (identifiers, phase counts and list indices as \<^typ>\<open>nat\<close>), a field that may be
  \<^verbatim>\<open>undefined\<close> as an \<^typ>\<open>'a option\<close>, a thrown exception as the left summand of a
  sum type.
\<close>

datatype error =
  BackendError string  \<comment> \<open>\<^verbatim>\<open>throw new BackendError({ method: ... })\<close>, tagged by its method\<close>
| TypeError            \<comment> \<open>a property read on \<^verbatim>\<open>undefined\<close>/\<^verbatim>\<open>null\<close>\<close>
| UpstreamError        \<comment> \<open>the HTTP call to the optimizer failed\<close>

datatype ChargePointStatus =
  Available | Preparing | Charging | SuspendedEV | SuspendedEVSE
| Finishing | Reserved | Occupied | Unavailable | Faulted

datatype CurrentType = AC | DC

record ChargePoint =
  chargePointID :: nat
  connectorIDs :: "nat list"
  sharePowerToAllConnectors :: bool
  cannotChargeInParallel :: bool
  excludeFromPowerLimitation :: bool
  efficiency :: "real option"

record Connector =
  connectorId :: nat
  status :: ChargePointStatus
  conn_chargePointID :: "nat option"
  currentTransactionID :: "nat option"
  numberOfConnectedPhase :: nat
  amperage :: real

record ChargingStation =
  cs_id :: string
  excludeFromSmartCharging :: bool
  cs_maximumPower :: real
  connectors :: "Connector list"
  chargePoints :: "ChargePoint list"

record SiteArea =
  sa_id :: string
  maximumPower :: real
  voltage :: real
  numberOfPhases :: nat
  chargingStations :: "ChargingStation list"

record PhasesUsed =
  csPhase1 :: bool
  csPhase2 :: bool
  csPhase3 :: bool

record Transaction =
  tx_id :: nat
  chargeBoxID :: string
  tx_connectorId :: nat
  timestamp :: int  \<comment> \<open>milliseconds since the epoch\<close>
  currentTotalConsumptionWh :: real
  currentInstantAmps :: real
  currentInstantWattsDC :: real
  phasesUsed :: "PhasesUsed option"
  carID :: "string option"

record Car =
  converter_amperagePerPhase :: "real option"
  carCatalog_fastChargePowerMax :: "real option"
  carCatalog_batteryCapacityFull :: "real option"

record SapSmartChargingSetting =
  optimizerUrl :: string
  user :: string
  password :: string
  stickyLimitation :: bool
  limitBufferAC :: "real option"
  limitBufferDC :: "real option"

subsection \<open>Optimizer request and response\<close>

record OptimizerChargingStationConnectorFuse =
  fuse_type :: string
  fuse_id :: nat
  fusePhase1 :: real
  fusePhase2 :: real
  fusePhase3 :: real
  phase1Connected :: bool
  phase2Connected :: bool
  phase3Connected :: bool

record 'c fuse_node = OptimizerChargingStationConnectorFuse +
  children :: "'c list"

type_synonym OptimizerChargingStationFuse = "OptimizerChargingStationConnectorFuse fuse_node"

type_synonym OptimizerFuse = "OptimizerChargingStationFuse fuse_node"

record OptimizerCar =
  canLoadPhase1 :: nat
  canLoadPhase2 :: nat
  canLoadPhase3 :: nat
  car_id :: nat
  timestampArrival :: int
  carType :: string
  maxCapacity :: real
  minLoadingState :: real
  startCapacity :: real
  minCurrent :: real
  minCurrentPerPhase :: real
  maxCurrent :: real
  maxCurrentPerPhase :: real
  suspendable :: bool
  immediateStart :: bool
  canUseVariablePower :: bool
  car_name :: string

record OptimizerCarConnectorAssignment =
  carID_assigned :: nat
  chargingStationID_assigned :: nat

record OptimizerChargingProfilesRequest =
  eventType :: string
  rootFuse :: OptimizerFuse
  cars :: "OptimizerCar list"
  carAssignments :: "OptimizerCarConnectorAssignment list"
  currentTimeSeconds :: int

record OptimizerResultCar =
  res_name :: string
  currentPlan :: "real list"

subsection \<open>Charging profiles\<close>

record ChargingSchedulePeriod =
  startPeriod :: nat
  limit :: real

record ChargingSchedule =
  chargingRateUnit :: string
  chargingSchedulePeriod :: "ChargingSchedulePeriod list"
  startSchedule :: int  \<comment> \<open>milliseconds since the epoch\<close>
  duration :: nat

record Profile =
  chargingProfileId :: nat
  chargingProfileKind :: string
  chargingProfilePurpose :: string
  transactionId :: "nat option"
  stackLevel :: nat
  chargingSchedule :: ChargingSchedule

record ChargingProfile =
  chargingStationID :: string
  connectorID :: nat
  profile_chargePointID :: nat
  profile :: Profile

section \<open>Collaborators that are not part of the source file\<close>

text \<open>
  \<^verbatim>\<open>Utils\<close>, \<^verbatim>\<open>Constants\<close>, the storage classes, the HTTP client, the clock and the
  base class's \<^verbatim>\<open>checkIfSiteAreaIsValid\<close> are imported by the source file and are not
  part of it. The functions of the source file take them as one parameter. A lookup whose
  result the source treats as possibly missing (\<^verbatim>\<open>chargePoint?.efficiency\<close>,
  \<^verbatim>\<open>if (!connectorOfChargePoint)\<close>, \<^verbatim>\<open>if (!transaction)\<close>) returns an option.
\<close>

record collab =
  getChargingStationVoltage :: "ChargingStation \<Rightarrow> real"
  getChargePointFromID :: "ChargingStation \<Rightarrow> nat option \<Rightarrow> ChargePoint option"
  getConnectorFromID :: "ChargingStation \<Rightarrow> nat \<Rightarrow> Connector option"
  getChargingStationAmperage :: "ChargingStation \<Rightarrow> ChargePoint option \<Rightarrow> nat \<Rightarrow> real"
  getChargingStationAmperagePerPhase :: "ChargingStation \<Rightarrow> ChargePoint option \<Rightarrow> nat \<Rightarrow> real"
  getChargingStationCurrentType :: "ChargingStation \<Rightarrow> ChargePoint option \<Rightarrow> nat \<Rightarrow> CurrentType option"
  getNumberOfConnectedPhases :: "ChargingStation \<Rightarrow> ChargePoint option \<Rightarrow> nat \<Rightarrow> nat"
  getNumberOfUsedPhasesInTransactionInProgress :: "ChargingStation \<Rightarrow> Transaction \<Rightarrow> int"
  convertWattToAmp :: "ChargingStation \<Rightarrow> ChargePoint option \<Rightarrow> nat \<Rightarrow> real \<Rightarrow> real"
  roundTo :: "real \<Rightarrow> nat \<Rightarrow> real"
  convertToInt :: "string option \<Rightarrow> nat"
  parseInt :: "string option \<Rightarrow> int option"  \<comment> \<open>\<open>None\<close> is \<^verbatim>\<open>NaN\<close>\<close>
  DC_CHARGING_STATION_DEFAULT_EFFICIENCY_PERCENT :: real
  MIN_LIMIT_PER_PHASE :: real
  checkIfSiteAreaIsValid :: "SiteArea \<Rightarrow> bool"
  getTransaction :: "nat \<Rightarrow> Transaction option"
  getCar :: "string \<Rightarrow> Car option"
  getChargingStation :: "string \<Rightarrow> ChargingStation option"
  getChargingStations :: "string \<Rightarrow> ChargingStation list"
  getChargingProfiles :: "string list \<Rightarrow> ChargingProfile list"
  getOcppParameterValue :: "string \<Rightarrow> string \<Rightarrow> string option"
  decrypt :: "string \<Rightarrow> string"
  post :: "string \<Rightarrow> OptimizerChargingProfilesRequest \<Rightarrow> error + OptimizerResultCar list"
  now :: int         \<comment> \<open>\<^verbatim>\<open>moment()\<close>, \<^verbatim>\<open>new Date()\<close>: milliseconds since the epoch\<close>
  startOfDay :: int  \<comment> \<open>\<^verbatim>\<open>moment().startOf('day')\<close>\<close>

section \<open>JavaScript helpers\<close>

text \<open>Truthiness of an optional number: \<^verbatim>\<open>undefined\<close> and \<^verbatim>\<open>0\<close> are falsy.\<close>

definition truthyN :: "nat option \<Rightarrow> bool" where
  "truthyN x = (case x of None \<Rightarrow> False | Some n \<Rightarrow> n \<noteq> 0)"

text \<open>\<^verbatim>\<open>x > 0\<close> for an optional number: a comparison with \<^verbatim>\<open>undefined\<close> is false.\<close>

definition gt0 :: "real option \<Rightarrow> bool" where
  "gt0 x = (case x of None \<Rightarrow> False | Some v \<Rightarrow> v > 0)"

text \<open>\<^verbatim>\<open>xs.splice(i, 1)\<close>.\<close>

definition splice1 :: "nat \<Rightarrow> 'a list \<Rightarrow> 'a list" where
  "splice1 i xs = take i xs @ drop (Suc i) xs"

text \<open>Integer division rounding towards zero, as \<^verbatim>\<open>moment.diff\<close> truncates.\<close>

definition trunc_div :: "int \<Rightarrow> int \<Rightarrow> int" where
  "trunc_div a b = sgn a * sgn b * (\<bar>a\<bar> div \<bar>b\<bar>)"

definition moment_diff_seconds :: "int \<Rightarrow> int \<Rightarrow> int" where
  "moment_diff_seconds a b = trunc_div (a - b) 1000"

definition moment_diff_minutes :: "int \<Rightarrow> int \<Rightarrow> int" where
  "moment_diff_minutes a b = trunc_div (a - b) 60000"

text \<open>Decimal rendering of a number in a template string.\<close>

definition digit_char :: "nat \<Rightarrow> char" where
  "digit_char n = ''0123456789'' ! (n mod 10)"

function show_nat :: "nat \<Rightarrow> string" where
  "show_nat n = (if n < 10 then [digit_char n] else show_nat (n div 10) @ [digit_char n])"
  by pat_completeness auto
termination
  by (relation "measure (\<lambda>n. n)") auto

declare show_nat.simps [simp del]

text \<open>\<^verbatim>\<open>name.split('~')\<close>.\<close>

fun split_tilde :: "string \<Rightarrow> string list" where
  "split_tilde [] = [[]]"
| "split_tilde (c # cs) =
     (if c = CHR ''~'' then [] # split_tilde cs
      else (case split_tilde cs of [] \<Rightarrow> [[c]] | w # ws \<Rightarrow> (c # w) # ws))"

definition nth_opt :: "'a list \<Rightarrow> nat \<Rightarrow> 'a option" where
  "nth_opt xs i = (if i < length xs then Some (xs ! i) else None)"

section \<open>The optimizer URL\<close>

definition buildOptimizerUrl :: "collab \<Rightarrow> SapSmartChargingSetting \<Rightarrow> error + string" where
  "buildOptimizerUrl env setting =
     (let url = optimizerUrl setting;
          usr = user setting;
          pwd = (if password setting \<noteq> [] then decrypt env (password setting) else password setting)
      in if url = [] \<or> usr = [] \<or> pwd = [] then Inl (BackendError ''getChargingProfiles'')
         else Inr (take 8 url @ usr @ '':'' @ pwd @ ''@'' @ drop 8 url))"

section \<open>Topology sanitizer: \<^verbatim>\<open>adjustSiteLimitation\<close>\<close>

text \<open>
  The inner loop \<^verbatim>\<open>for (let j = connectors.length - 1; j >= 0; j--)\<close>; the first argument
  is \<open>j + 1\<close>. The station is passed on with its connector list as spliced so far, because
  the source mutates \<^verbatim>\<open>chargingStation.connectors\<close> in place. The state is the station, the
  list \<^verbatim>\<open>chargePointIDsAlreadyProcessed\<close> and \<^verbatim>\<open>siteMaxAmps\<close>.
\<close>

fun connectorsLoop ::
  "collab \<Rightarrow> nat \<Rightarrow> ChargingStation \<Rightarrow> nat list \<Rightarrow> real \<Rightarrow> error + (ChargingStation \<times> nat list \<times> real)"
where
  "connectorsLoop env 0 chargingStation processed siteMaxAmps =
     Inr (chargingStation, processed, siteMaxAmps)"
| "connectorsLoop env (Suc j) chargingStation processed siteMaxAmps =
     (case nth_opt (connectors chargingStation) j of
        None \<Rightarrow> Inl TypeError
      | Some connector \<Rightarrow>
          if truthyN (conn_chargePointID connector) then
            (case getChargePointFromID env chargingStation (conn_chargePointID connector) of
               None \<Rightarrow> Inl TypeError
             | Some chargePoint \<Rightarrow>
                 if excludeFromPowerLimitation chargePoint \<and>
                    chargePointID chargePoint \<notin> set processed
                 then
                   (let connectorAmperage =
                          getChargingStationAmperage env chargingStation (Some chargePoint)
                            (connectorId connector)
                    in connectorsLoop env j
                         (chargingStation\<lparr>connectors := splice1 j (connectors chargingStation)\<rparr>)
                         (processed @ [chargePointID chargePoint])
                         (siteMaxAmps - connectorAmperage))
                 else connectorsLoop env j chargingStation processed siteMaxAmps)
          else connectorsLoop env j chargingStation processed siteMaxAmps)"

text \<open>
  The outer loop \<^verbatim>\<open>for (let i = chargingStations.length - 1; i >= 0; i--)\<close>; the second
  argument is \<open>i + 1\<close>, the third \<^verbatim>\<open>excludedChargingStations\<close> (optional).
\<close>

definition isExcludedStation :: "string list option \<Rightarrow> ChargingStation \<Rightarrow> bool" where
  "isExcludedStation excludedChargingStations chargingStation =
     (excludeFromSmartCharging chargingStation \<or>
      (case excludedChargingStations of
         None \<Rightarrow> False
       | Some ids \<Rightarrow> cs_id chargingStation \<in> set ids))"

fun stationsLoop ::
  "collab \<Rightarrow> nat \<Rightarrow> string list option \<Rightarrow> ChargingStation list \<Rightarrow> real \<Rightarrow>
   error + (ChargingStation list \<times> real)"
where
  "stationsLoop env 0 excluded stations siteMaxAmps = Inr (stations, siteMaxAmps)"
| "stationsLoop env (Suc i) excluded stations siteMaxAmps =
     (case nth_opt stations i of
        None \<Rightarrow> Inl TypeError
      | Some chargingStation \<Rightarrow>
          (let chargingStationVoltage = getChargingStationVoltage env chargingStation in
           if isExcludedStation excluded chargingStation then
             stationsLoop env i excluded (splice1 i stations)
               (siteMaxAmps - cs_maximumPower chargingStation / chargingStationVoltage)
           else
             (case connectorsLoop env (length (connectors chargingStation)) chargingStation []
                     siteMaxAmps of
                Inl e \<Rightarrow> Inl e
              | Inr (chargingStation', processed, siteMaxAmps') \<Rightarrow>
                  if length (connectors chargingStation') = 0
                  then stationsLoop env i excluded (splice1 i stations) siteMaxAmps'
                  else stationsLoop env i excluded (stations[i := chargingStation'])
                         siteMaxAmps')))"

text \<open>The result is the site area as the function leaves it (it mutates its argument).\<close>

definition adjustSiteLimitation ::
  "collab \<Rightarrow> SiteArea \<Rightarrow> string list option \<Rightarrow> error + SiteArea"
where
  "adjustSiteLimitation env siteArea excluded =
     (let originalSiteMaxAmps = maximumPower siteArea / voltage siteArea in
      case stationsLoop env (length (chargingStations siteArea)) excluded
             (chargingStations siteArea) originalSiteMaxAmps of
        Inl e \<Rightarrow> Inl e
      | Inr (stations, amps) \<Rightarrow>
          (let siteMaxAmps = (if amps < 0 then 0 else amps);
               siteArea' = siteArea\<lparr>chargingStations := stations\<rparr>
           in Inr (if siteMaxAmps \<noteq> originalSiteMaxAmps
                   then siteArea'\<lparr>maximumPower := siteMaxAmps * voltage siteArea\<rparr>
                   else siteArea')))"

section \<open>Car model builder\<close>

definition getTransactionFromChargingConnector :: "collab \<Rightarrow> Connector \<Rightarrow> error + Transaction" where
  "getTransactionFromChargingConnector env connector =
     (case currentTransactionID connector of
        None \<Rightarrow> Inl (BackendError ''getTransactionFromChargingConnector'')
      | Some tid \<Rightarrow>
          if tid = 0 then Inl (BackendError ''getTransactionFromChargingConnector'')
          else (case getTransaction env tid of
                  None \<Rightarrow> Inl (BackendError ''getTransactionFromChargingConnector'')
                | Some transaction \<Rightarrow> Inr transaction))"

definition buildSafeCar :: "collab \<Rightarrow> nat \<Rightarrow> ChargingStation \<Rightarrow> Transaction \<Rightarrow> int \<Rightarrow> OptimizerCar" where
  "buildSafeCar env fuseID chargingStation transaction currentTimeSecs =
     (let volt = getChargingStationVoltage env chargingStation;
          maxConnectorAmpsPerPhase =
            getChargingStationAmperagePerPhase env chargingStation None (tx_connectorId transaction);
          timestampArrivalInSeconds = moment_diff_seconds (timestamp transaction) (startOfDay env)
      in \<lparr> canLoadPhase1 = 1, canLoadPhase2 = 1, canLoadPhase3 = 1,
           car_id = fuseID,
           timestampArrival =
             (if currentTimeSecs > timestampArrivalInSeconds then timestampArrivalInSeconds
              else if currentTimeSecs + 30 > timestampArrivalInSeconds then currentTimeSecs
              else 0),
           carType = ''BEV'',
           maxCapacity = 100 * 1000 / volt,
           minLoadingState = (100 * 1000 / volt) * 0.5,
           startCapacity = currentTotalConsumptionWh transaction / volt,
           minCurrent = MIN_LIMIT_PER_PHASE env * 3,
           minCurrentPerPhase = MIN_LIMIT_PER_PHASE env,
           maxCurrent = maxConnectorAmpsPerPhase * 3,
           maxCurrentPerPhase = maxConnectorAmpsPerPhase,
           suspendable = True, immediateStart = False, canUseVariablePower = True,
           car_name = chargeBoxID transaction @ ''~'' @ show_nat (tx_connectorId transaction) \<rparr>)"

text \<open>
  \<^verbatim>\<open>getCurrentSapSmartChargingProfileLimit\<close>: \<open>None\<close> is the \<^verbatim>\<open>undefined\<close> that
  \<^verbatim>\<open>chargingSchedulePeriod[currentSlot]?.limit\<close> yields for a negative slot.
\<close>

definition getCurrentSapSmartChargingProfileLimit :: "collab \<Rightarrow> ChargingProfile \<Rightarrow> real option" where
  "getCurrentSapSmartChargingProfileLimit env currentProfile =
     (let sched = chargingSchedule (profile currentProfile);
          currentSlot =
            \<lfloor>real_of_int (moment_diff_minutes (now env) (startSchedule sched)) / 15\<rfloor>
      in if currentSlot < int (length (chargingSchedulePeriod sched))
         then (if 0 \<le> currentSlot
               then Some (limit (chargingSchedulePeriod sched ! nat currentSlot))
               else None)
         else Some (- 1))"

text \<open>
  \<^verbatim>\<open>checkIfCarIsIncreasingConsumption\<close>. The list is \<^verbatim>\<open>this.currentChargingProfiles\<close>; the
  last argument is the optional \<^verbatim>\<open>numberOfPhasesInProgress\<close>. A comparison in which an
  operand is \<^verbatim>\<open>undefined\<close> (so \<^verbatim>\<open>NaN\<close>) is false, hence the \<open>None\<close> cases.
\<close>

definition checkIfCarIsIncreasingConsumption ::
  "collab \<Rightarrow> SapSmartChargingSetting \<Rightarrow> ChargingProfile list \<Rightarrow> ChargingStation \<Rightarrow> Transaction \<Rightarrow>
   CurrentType \<Rightarrow> OptimizerCar \<Rightarrow> int option \<Rightarrow> bool"
where
  "checkIfCarIsIncreasingConsumption env setting currentChargingProfiles chargingStation
       transaction currentType car numberOfPhasesInProgress =
     (case filter (\<lambda>chargingProfile.
                 transactionId (profile chargingProfile) = Some (tx_id transaction) \<and>
                 chargingStationID chargingProfile = chargeBoxID transaction \<and>
                 connectorID chargingProfile = tx_connectorId transaction)
             currentChargingProfiles of
        [currentProfile] \<Rightarrow>
          (case getCurrentSapSmartChargingProfileLimit env currentProfile of
             None \<Rightarrow> False
           | Some currentLimit \<Rightarrow>
               if currentLimit < 1 then True
               else
                 (let numberOfPhasesChargingStation =
                        getNumberOfConnectedPhases env chargingStation None
                          (tx_connectorId transaction)
                  in case currentType of
                       AC \<Rightarrow>
                         (case (limitBufferAC setting, numberOfPhasesInProgress) of
                            (Some buffer, Some phasesInProgress) \<Rightarrow>
                              (let currentLimitPerPhase =
                                     currentLimit / real numberOfPhasesChargingStation;
                                   threshold0 = currentLimitPerPhase / (1 + buffer / 100);
                                   normalFluctuation = (currentLimitPerPhase - threshold0) * 0.2;
                                   threshold = threshold0 + normalFluctuation
                               in threshold <
                                    currentInstantAmps transaction / real_of_int phasesInProgress \<and>
                                  currentLimit / real numberOfPhasesChargingStation <
                                    maxCurrentPerPhase car)
                          | _ \<Rightarrow> False)
                     | DC \<Rightarrow>
                         (case limitBufferDC setting of
                            Some buffer \<Rightarrow>
                              (let threshold0 = currentLimit / (1 + buffer / 100);
                                   normalFluctuation = (currentLimit - threshold0) * 0.2;
                                   threshold = threshold0 + normalFluctuation
                               in threshold <
                                    convertWattToAmp env chargingStation None
                                      (tx_connectorId transaction)
                                      (currentInstantWattsDC transaction) \<and>
                                  currentLimit < maxCurrentPerPhase car)
                          | None \<Rightarrow> False)))
      | _ \<Rightarrow> False)"

text \<open>\<^verbatim>\<open>typeof buffer === 'number' ? buffer : 0\<close>.\<close>

definition bufferOrZero :: "real option \<Rightarrow> real" where
  "bufferOrZero b = (case b of Some v \<Rightarrow> v | None \<Rightarrow> 0)"

definition overrideCarWithRuntimeData ::
  "collab \<Rightarrow> SapSmartChargingSetting \<Rightarrow> ChargingProfile list \<Rightarrow> ChargingStation \<Rightarrow> Transaction \<Rightarrow>
   OptimizerCar \<Rightarrow> OptimizerCar"
where
  "overrideCarWithRuntimeData env setting currentChargingProfiles chargingStation transaction car =
     (case phasesUsed transaction of
        Some used \<Rightarrow>
          (let numberOfPhasesInProgress =
                 getNumberOfUsedPhasesInTransactionInProgress env chargingStation transaction
           in if numberOfPhasesInProgress \<noteq> - 1 then
                (let car1 =
                       (if stickyLimitation setting then
                          (let carIsIncreasingConsumption =
                                 checkIfCarIsIncreasingConsumption env setting
                                   currentChargingProfiles chargingStation transaction AC car
                                   (Some numberOfPhasesInProgress)
                           in if \<not> carIsIncreasingConsumption then
                                (if currentInstantAmps transaction > 0 then
                                   car\<lparr>maxCurrentPerPhase :=
                                     roundTo env
                                       (currentInstantAmps transaction /
                                          real_of_int numberOfPhasesInProgress *
                                        (1 + bufferOrZero (limitBufferAC setting) / 100)) 3\<rparr>
                                 else car\<lparr>maxCurrentPerPhase := minCurrentPerPhase car\<rparr>)
                              else car)
                        else car)
                 in car1\<lparr>canLoadPhase1 := (if csPhase1 used then 1 else 0),
                         canLoadPhase2 := (if csPhase2 used then 1 else 0),
                         canLoadPhase3 := (if csPhase3 used then 1 else 0),
                         minCurrent := minCurrentPerPhase car1 * real_of_int numberOfPhasesInProgress,
                         maxCurrent := maxCurrentPerPhase car1 * real_of_int numberOfPhasesInProgress\<rparr>)
              else car)
      | None \<Rightarrow>
          if getChargingStationCurrentType env chargingStation None (tx_connectorId transaction)
               = Some DC \<and>
             currentInstantWattsDC transaction > 0 \<and> stickyLimitation setting
          then
            (let carIsIncreasingConsumption =
                   checkIfCarIsIncreasingConsumption env setting currentChargingProfiles
                     chargingStation transaction DC car None
             in if \<not> carIsIncreasingConsumption then
                  (let instantAmps =
                         convertWattToAmp env chargingStation None (tx_connectorId transaction)
                           (currentInstantWattsDC transaction);
                       perPhase =
                         roundTo env
                           (instantAmps / 3 * (1 + bufferOrZero (limitBufferDC setting) / 100)) 3
                   in car\<lparr>maxCurrentPerPhase := perPhase, maxCurrent := perPhase * 3\<rparr>)
                else car)
          else car)"

text \<open>The vehicle overrides of \<^verbatim>\<open>buildCar\<close> (the block \<^verbatim>\<open>if (transaction.carID)\<close>).\<close>

definition overrideCarWithVehicle ::
  "collab \<Rightarrow> ChargingStation \<Rightarrow> Transaction \<Rightarrow> Car option \<Rightarrow> OptimizerCar \<Rightarrow> OptimizerCar"
where
  "overrideCarWithVehicle env chargingStation transaction transactionCar customCar =
     (let volt = getChargingStationVoltage env chargingStation;
          currentType =
            getChargingStationCurrentType env chargingStation None (tx_connectorId transaction);
          car1 =
            (if currentType = Some AC \<and>
                getNumberOfConnectedPhases env chargingStation None (tx_connectorId transaction) = 3
             then
               (case Option.bind transactionCar converter_amperagePerPhase of
                  Some a \<Rightarrow>
                    if a > 0 then customCar\<lparr>maxCurrentPerPhase := a, maxCurrent := a * 3\<rparr>
                    else customCar
                | None \<Rightarrow> customCar)
             else if currentType = Some DC then
               (case Option.bind transactionCar carCatalog_fastChargePowerMax of
                  Some p \<Rightarrow>
                    if p > 0 then
                      (let maxDCCurrent =
                             convertWattToAmp env chargingStation None
                               (tx_connectorId transaction) (p * 1000);
                           perPhase = roundTo env (maxDCCurrent / 3) 3
                       in customCar\<lparr>maxCurrentPerPhase := perPhase, maxCurrent := perPhase * 3\<rparr>)
                    else customCar
                | None \<Rightarrow> customCar)
             else customCar)
      in case Option.bind transactionCar carCatalog_batteryCapacityFull of
           Some b \<Rightarrow>
             if b > 0 then car1\<lparr>maxCapacity := b * 1000 / volt,
                                minLoadingState := (b * 1000 / volt) * 0.5\<rparr>
             else car1
         | None \<Rightarrow> car1)"

definition buildCar ::
  "collab \<Rightarrow> SapSmartChargingSetting \<Rightarrow> ChargingProfile list \<Rightarrow> nat \<Rightarrow> ChargingStation \<Rightarrow>
   Transaction \<Rightarrow> int \<Rightarrow> OptimizerCar"
where
  "buildCar env setting currentChargingProfiles fuseID chargingStation transaction currentTimeSecs =
     (let customCar = buildSafeCar env fuseID chargingStation transaction currentTimeSecs;
          car1 =
            (case carID transaction of
               Some cid \<Rightarrow>
                 if cid \<noteq> [] then
                   overrideCarWithVehicle env chargingStation transaction (getCar env cid) customCar
                 else customCar
             | None \<Rightarrow> customCar);
          car2 =
            overrideCarWithRuntimeData env setting currentChargingProfiles chargingStation
              transaction car1
      in if getChargingStationCurrentType env chargingStation None (tx_connectorId transaction)
              = Some DC
         then
           (let connector = getConnectorFromID env chargingStation (tx_connectorId transaction);
                chargePoint =
                  getChargePointFromID env chargingStation (Option.bind connector conn_chargePointID);
                safe = maxCurrentPerPhase car2 /
                         (DC_CHARGING_STATION_DEFAULT_EFFICIENCY_PERCENT env / 100);
                perPhase =
                  (case Option.bind chargePoint efficiency of
                     Some e \<Rightarrow> if e > 0 then maxCurrentPerPhase car2 / (e / 100) else safe
                   | None \<Rightarrow> safe)
            in car2\<lparr>maxCurrentPerPhase := perPhase, maxCurrent := perPhase * 3\<rparr>)
         else car2)"

section \<open>Fuse-tree builder\<close>

definition connectorIsCharging :: "Connector \<Rightarrow> bool" where
  "connectorIsCharging connector =
     (status connector = Charging \<or> status connector = SuspendedEV \<or>
      status connector = SuspendedEVSE \<or> status connector = Occupied)"

record ConnectorAmps =
  ca_numberOfConnectedPhase :: nat
  totalAmps :: real

text \<open>
  The loop over \<^verbatim>\<open>chargePoint.connectorIDs\<close> that counts the connectors in activity; an
  identifier that resolves to no connector is skipped (\<^verbatim>\<open>continue\<close>).
\<close>

fun countConnectorsCharging :: "collab \<Rightarrow> ChargingStation \<Rightarrow> nat list \<Rightarrow> nat" where
  "countConnectorsCharging env chargingStation [] = 0"
| "countConnectorsCharging env chargingStation (cid # cids) =
     (case getConnectorFromID env chargingStation cid of
        None \<Rightarrow> countConnectorsCharging env chargingStation cids
      | Some connectorOfChargePoint \<Rightarrow>
          (if connectorIsCharging connectorOfChargePoint then 1 else 0) +
          countConnectorsCharging env chargingStation cids)"

definition getConnectorNbrOfPhasesAndAmps ::
  "collab \<Rightarrow> ChargingStation \<Rightarrow> Connector \<Rightarrow> error + ConnectorAmps"
where
  "getConnectorNbrOfPhasesAndAmps env chargingStation connector =
     (case
        (if truthyN (conn_chargePointID connector) then
           (case getChargePointFromID env chargingStation (conn_chargePointID connector) of
              None \<Rightarrow> Inl TypeError
            | Some chargePoint \<Rightarrow>
                (let phases =
                       getNumberOfConnectedPhases env chargingStation (Some chargePoint)
                         (connectorId connector);
                     amps =
                       getChargingStationAmperage env chargingStation (Some chargePoint)
                         (connectorId connector);
                     amps' =
                       (if sharePowerToAllConnectors chargePoint \<or> cannotChargeInParallel chargePoint
                        then
                          (let numberOfConnectorsCurrentlyCharging =
                                 countConnectorsCharging env chargingStation
                                   (connectorIDs chargePoint)
                           in if numberOfConnectorsCurrentlyCharging \<ge> 1 then
                                (let shared =
                                       (if sharePowerToAllConnectors chargePoint
                                        then amps / real numberOfConnectorsCurrentlyCharging
                                        else amps)
                                 in if cannotChargeInParallel chargePoint \<and>
                                       numberOfConnectorsCurrentlyCharging > 1
                                    then 0 else shared)
                              else amps)
                        else amps)
                 in Inr \<lparr> ca_numberOfConnectedPhase = phases, totalAmps = amps' \<rparr>))
         else Inr \<lparr> ca_numberOfConnectedPhase = numberOfConnectedPhase connector,
                    totalAmps = amperage connector \<rparr>)
      of
        Inl e \<Rightarrow> Inl e
      | Inr connectorAmps \<Rightarrow>
          if ca_numberOfConnectedPhase connectorAmps = 0
          then Inl (BackendError ''getConnectorNbrOfPhasesAndAmps: number of phases'')
          else if totalAmps connectorAmps = 0
          then Inl (BackendError ''getConnectorNbrOfPhasesAndAmps: amperage'')
          else Inr connectorAmps)"

definition buildChargingStationConnectorFuse ::
  "collab \<Rightarrow> nat \<Rightarrow> ChargingStation \<Rightarrow> Connector \<Rightarrow> error + OptimizerChargingStationConnectorFuse"
where
  "buildChargingStationConnectorFuse env fuseID chargingStation connector =
     (case getConnectorNbrOfPhasesAndAmps env chargingStation connector of
        Inl e \<Rightarrow> Inl e
      | Inr connectorAmps \<Rightarrow>
          (let perPhase0 = totalAmps connectorAmps / real (ca_numberOfConnectedPhase connectorAmps);
               connectorAmpsPerPhase =
                 (if getChargingStationCurrentType env chargingStation None (connectorId connector)
                       = Some DC
                  then
                    (let safe = perPhase0 / DC_CHARGING_STATION_DEFAULT_EFFICIENCY_PERCENT env in
                     case Option.bind
                            (getChargePointFromID env chargingStation (conn_chargePointID connector))
                            efficiency of
                       Some e \<Rightarrow> if e > 0 then perPhase0 / (e / 100) else safe
                     | None \<Rightarrow> safe)
                  else perPhase0);
               several = (ca_numberOfConnectedPhase connectorAmps > 1)
           in Inr \<lparr> fuse_type = ''ChargingStation'',
                    fuse_id = fuseID,
                    fusePhase1 = connectorAmpsPerPhase,
                    fusePhase2 = (if several then connectorAmpsPerPhase else 0),
                    fusePhase3 = (if several then connectorAmpsPerPhase else 0),
                    phase1Connected = True,
                    phase2Connected = several,
                    phase3Connected = several \<rparr>))"

definition buildChargingStationFuse ::
  "nat \<Rightarrow> real \<Rightarrow> real \<Rightarrow> real \<Rightarrow> OptimizerChargingStationConnectorFuse list \<Rightarrow>
   OptimizerChargingStationFuse"
where
  "buildChargingStationFuse fuseID sumConnectorAmperagePhase1 sumConnectorAmperagePhase2
       sumConnectorAmperagePhase3 chargingStationConnectorsFuse =
     \<lparr> fuse_type = ''Fuse'',
       fuse_id = fuseID,
       fusePhase1 = sumConnectorAmperagePhase1,
       fusePhase2 = sumConnectorAmperagePhase2,
       fusePhase3 = sumConnectorAmperagePhase3,
       phase1Connected = True,
       phase2Connected = (sumConnectorAmperagePhase2 > 0),
       phase3Connected = (sumConnectorAmperagePhase3 > 0),
       children = chargingStationConnectorsFuse \<rparr>"

section \<open>Building the optimizer request\<close>

text \<open>
  The variables \<^verbatim>\<open>buildOptimizerRequest\<close> updates while it loops: the arrays \<^verbatim>\<open>cars\<close>
  and \<^verbatim>\<open>carConnectorAssignments\<close>, the counter \<^verbatim>\<open>fuseID\<close>, the children of the root
  fuse, and, inside one station, the three sums and the connector fuses of that station.
\<close>

record build_state =
  b_cars :: "OptimizerCar list"
  b_carConnectorAssignments :: "OptimizerCarConnectorAssignment list"
  b_fuseID :: nat
  b_rootChildren :: "OptimizerChargingStationFuse list"
  sumConnectorAmperagePhase1 :: real
  sumConnectorAmperagePhase2 :: real
  sumConnectorAmperagePhase3 :: real
  chargingStationConnectorsFuse :: "OptimizerChargingStationConnectorFuse list"

text \<open>
  The loop over the connectors of one station. \<^verbatim>\<open>buildChargingStationConnectorFuse\<close>
  returns an object or throws, so the \<^verbatim>\<open>continue\<close> on a falsy fuse is never taken.
\<close>

fun connectorsBuildLoop ::
  "collab \<Rightarrow> SapSmartChargingSetting \<Rightarrow> ChargingProfile list \<Rightarrow> int \<Rightarrow> ChargingStation \<Rightarrow>
   Connector list \<Rightarrow> build_state \<Rightarrow> error + build_state"
where
  "connectorsBuildLoop env setting profiles currentTimeSecs chargingStation [] st = Inr st"
| "connectorsBuildLoop env setting profiles currentTimeSecs chargingStation (connector # rest) st =
     (case getTransactionFromChargingConnector env connector of
        Inl e \<Rightarrow> Inl e
      | Inr transaction \<Rightarrow>
          (case buildChargingStationConnectorFuse env (b_fuseID st) chargingStation connector of
             Inl e \<Rightarrow> Inl e
           | Inr chargingStationConnectorFuse \<Rightarrow>
               (let car = buildCar env setting profiles (b_fuseID st) chargingStation transaction
                            currentTimeSecs
                in connectorsBuildLoop env setting profiles currentTimeSecs chargingStation rest
                     (st\<lparr> chargingStationConnectorsFuse :=
                            chargingStationConnectorsFuse st @ [chargingStationConnectorFuse],
                          sumConnectorAmperagePhase1 :=
                            sumConnectorAmperagePhase1 st + fusePhase1 chargingStationConnectorFuse,
                          sumConnectorAmperagePhase2 :=
                            sumConnectorAmperagePhase2 st + fusePhase2 chargingStationConnectorFuse,
                          sumConnectorAmperagePhase3 :=
                            sumConnectorAmperagePhase3 st + fusePhase3 chargingStationConnectorFuse,
                          b_cars := b_cars st @ [car],
                          b_carConnectorAssignments :=
                            b_carConnectorAssignments st @
                              [\<lparr> carID_assigned = b_fuseID st,
                                 chargingStationID_assigned = b_fuseID st \<rparr>],
                          b_fuseID := b_fuseID st + 1 \<rparr>))))"

text \<open>The loop over the charging stations of the site area.\<close>

fun stationsBuildLoop ::
  "collab \<Rightarrow> SapSmartChargingSetting \<Rightarrow> ChargingProfile list \<Rightarrow> int \<Rightarrow> ChargingStation list \<Rightarrow>
   build_state \<Rightarrow> error + build_state"
where
  "stationsBuildLoop env setting profiles currentTimeSecs [] st = Inr st"
| "stationsBuildLoop env setting profiles currentTimeSecs (chargingStation # rest) st =
     (case connectorsBuildLoop env setting profiles currentTimeSecs chargingStation
             (connectors chargingStation)
             (st\<lparr> sumConnectorAmperagePhase1 := 0, sumConnectorAmperagePhase2 := 0,
                  sumConnectorAmperagePhase3 := 0, chargingStationConnectorsFuse := [] \<rparr>) of
        Inl e \<Rightarrow> Inl e
      | Inr st1 \<Rightarrow>
          (let chargingStationFuse =
                 buildChargingStationFuse (b_fuseID st1) (sumConnectorAmperagePhase1 st1)
                   (sumConnectorAmperagePhase2 st1) (sumConnectorAmperagePhase3 st1)
                   (chargingStationConnectorsFuse st1);
               st2 = st1\<lparr> b_fuseID := b_fuseID st1 + 1 \<rparr>
           in stationsBuildLoop env setting profiles currentTimeSecs rest
                (if length (children chargingStationFuse) > 0
                 then st2\<lparr> b_rootChildren := b_rootChildren st2 @ [chargingStationFuse] \<rparr>
                 else st2)))"

text \<open>
  The state before the first station: the root fuse has taken the identifier 0
  (\<^verbatim>\<open>id: fuseID++\<close>), so the counter stands at 1.
\<close>

definition initialBuildState :: build_state where
  "initialBuildState =
     \<lparr> b_cars = [], b_carConnectorAssignments = [], b_fuseID = 1, b_rootChildren = [],
       sumConnectorAmperagePhase1 = 0, sumConnectorAmperagePhase2 = 0,
       sumConnectorAmperagePhase3 = 0, chargingStationConnectorsFuse = [] \<rparr>"

text \<open>
  \<^verbatim>\<open>buildOptimizerRequest\<close>. The third argument is the field
  \<^verbatim>\<open>this.currentChargingProfiles\<close> as it stands before the call; the function replaces it
  when sticky limitation is enabled. The site area the function mutates is read again by
  its callers only for its name in log messages, so the request alone is returned.
\<close>

definition buildOptimizerRequest ::
  "collab \<Rightarrow> SapSmartChargingSetting \<Rightarrow> ChargingProfile list \<Rightarrow> SiteArea \<Rightarrow> int \<Rightarrow>
   string list option \<Rightarrow> error + OptimizerChargingProfilesRequest"
where
  "buildOptimizerRequest env setting currentChargingProfiles0 siteArea0 currentTimeSecs excluded =
     (let profiles =
            (if stickyLimitation setting
             then getChargingProfiles env (map cs_id (chargingStations siteArea0))
             else currentChargingProfiles0)
      in if \<not> checkIfSiteAreaIsValid env siteArea0
         then Inl (BackendError ''checkIfSiteAreaIsValid'')
         else
           (case adjustSiteLimitation env siteArea0 excluded of
              Inl e \<Rightarrow> Inl e
            | Inr siteArea \<Rightarrow>
                (let siteMaxAmps = maximumPower siteArea / voltage siteArea;
                     siteMaxAmpsPerPhase = siteMaxAmps / real (numberOfPhases siteArea);
                     several = (numberOfPhases siteArea > 1)
                 in case stationsBuildLoop env setting profiles currentTimeSecs
                           (chargingStations siteArea) initialBuildState
                    of
                      Inl e \<Rightarrow> Inl e
                    | Inr st \<Rightarrow>
                        Inr \<lparr> eventType = ''Reoptimize'',
                              rootFuse =
                                \<lparr> fuse_type = ''Fuse'',
                                  fuse_id = 0,
                                  fusePhase1 = siteMaxAmpsPerPhase,
                                  fusePhase2 = (if several then siteMaxAmpsPerPhase else 0),
                                  fusePhase3 = (if several then siteMaxAmpsPerPhase else 0),
                                  phase1Connected = True,
                                  phase2Connected = several,
                                  phase3Connected = several,
                                  children = b_rootChildren st \<rparr>,
                              cars = b_cars st,
                              carAssignments = b_carConnectorAssignments st,
                              currentTimeSeconds = currentTimeSecs \<rparr>)))"

section \<open>Plan translator\<close>

definition calculateCarConsumption ::
  "collab \<Rightarrow> ChargingStation \<Rightarrow> Connector \<Rightarrow> nat \<Rightarrow> real \<Rightarrow> real"
where
  "calculateCarConsumption env chargingStation connector numberOfConnectedPhases currentLimit =
     (if getChargingStationCurrentType env chargingStation None (connectorId connector) = Some DC
      then
        (let safe = roundTo env
                      (currentLimit * DC_CHARGING_STATION_DEFAULT_EFFICIENCY_PERCENT env *
                       real numberOfConnectedPhases) 3
         in case Option.bind
                   (getChargePointFromID env chargingStation (conn_chargePointID connector))
                   efficiency of
              Some e \<Rightarrow>
                if e > 0
                then roundTo env (currentLimit * e / 100 * real numberOfConnectedPhases) 3
                else safe
            | None \<Rightarrow> safe)
      else roundTo env (currentLimit * real numberOfConnectedPhases) 3)"

text \<open>
  The loop that emits the schedule periods:
  \<^verbatim>\<open>for (let i = start; i < start + max && i < plan.length && (plan[i] > 0 || periods.length < 3); i++)\<close>.
  \<open>limitOf\<close> is \<^verbatim>\<open>calculateCarConsumption\<close> applied to the station, the connector and its
  number of phases; \<open>bound\<close> is \<^verbatim>\<open>start + max\<close> (an integer: the parsed parameter may be
  negative); the state is the index \<open>i\<close>, the periods pushed so far and
  \<^verbatim>\<open>currentTimeSlotMins\<close>.
\<close>

function periodsLoop ::
  "(real \<Rightarrow> real) \<Rightarrow> real list \<Rightarrow> int \<Rightarrow> nat \<Rightarrow> ChargingSchedulePeriod list \<Rightarrow> nat \<Rightarrow>
   ChargingSchedulePeriod list \<times> nat"
where
  "periodsLoop limitOf plan bound i periods currentTimeSlotMins =
     (if int i < bound \<and> i < length plan \<and> (plan ! i > 0 \<or> length periods < 3)
      then periodsLoop limitOf plan bound (Suc i)
             (periods @ [\<lparr> startPeriod = currentTimeSlotMins * 15 * 60, limit = limitOf (plan ! i) \<rparr>])
             (Suc currentTimeSlotMins)
      else (periods, currentTimeSlotMins))"
  by pat_completeness auto
termination
  by (relation "measure (\<lambda>(limitOf, plan, bound, i, periods, slot). length plan - i)") auto

declare periodsLoop.simps [simp del]

text \<open>
  \<^verbatim>\<open>!isNaN(maxScheduleLength) ? start + maxScheduleLength : start + 20\<close>.
\<close>

definition scheduleBound :: "nat \<Rightarrow> int option \<Rightarrow> int" where
  "scheduleBound start maxScheduleLength =
     (case maxScheduleLength of Some m \<Rightarrow> int start + m | None \<Rightarrow> int start + 20)"

text \<open>
  The body of the loop over the cars of the optimizer's result. The caller passes the
  seconds since midnight divided by 60, which is not negative; \<open>startSlot\<close> is
  \<^verbatim>\<open>Math.floor(currentDurationFromMidnightMins / 15)\<close>. The start of the schedule is the
  current time cut down to the quarter of an hour (time zones are whole quarters).
  A connector that does not resolve, and a connector without charge point (whose
  \<^verbatim>\<open>chargePoint\<close> stays \<^verbatim>\<open>undefined\<close> until \<^verbatim>\<open>chargePoint.chargePointID\<close> is read),
  raise a \<^verbatim>\<open>TypeError\<close>.
\<close>

definition startSlot :: "real \<Rightarrow> nat" where
  "startSlot currentDurationFromMidnightMins = nat \<lfloor>currentDurationFromMidnightMins / 15\<rfloor>"

definition buildChargingProfile ::
  "collab \<Rightarrow> OptimizerResultCar \<Rightarrow> real \<Rightarrow> error + ChargingProfile"
where
  "buildChargingProfile env car currentDurationFromMidnightMins =
     (let chargingStationDetails = split_tilde (res_name car);
          stationID = chargingStationDetails ! 0;
          connID = convertToInt env (nth_opt chargingStationDetails 1)
      in case getChargingStation env stationID of
           None \<Rightarrow> Inl (BackendError ''buildChargingProfilesFromOptimizerResponse'')
         | Some chargingStation \<Rightarrow>
             (case getConnectorFromID env chargingStation connID of
                None \<Rightarrow> Inl TypeError
              | Some connector \<Rightarrow>
                  (let chargePoint =
                         (if truthyN (conn_chargePointID connector)
                          then getChargePointFromID env chargingStation (conn_chargePointID connector)
                          else None);
                       phases =
                         (if truthyN (conn_chargePointID connector)
                          then getNumberOfConnectedPhases env chargingStation chargePoint
                                 (connectorId connector)
                          else numberOfConnectedPhase connector);
                       maxScheduleLength =
                         parseInt env
                           (getOcppParameterValue env stationID ''ChargingScheduleMaxPeriods'');
                       (periods, currentTimeSlotMins) =
                         periodsLoop (calculateCarConsumption env chargingStation connector phases)
                           (currentPlan car)
                           (scheduleBound (startSlot currentDurationFromMidnightMins)
                              maxScheduleLength)
                           (startSlot currentDurationFromMidnightMins) [] 0
                   in case chargePoint of
                        None \<Rightarrow> Inl TypeError
                      | Some cp \<Rightarrow>
                          Inr \<lparr> chargingStationID = stationID,
                                connectorID = connID,
                                profile_chargePointID = chargePointID cp,
                                profile =
                                  \<lparr> chargingProfileId = connID,
                                    chargingProfileKind = ''Absolute'',
                                    chargingProfilePurpose = ''TxProfile'',
                                    transactionId = currentTransactionID connector,
                                    stackLevel = 2,
                                    chargingSchedule =
                                      \<lparr> chargingRateUnit = ''A'',
                                        chargingSchedulePeriod = periods,
                                        startSchedule = now env - now env mod 900000,
                                        duration = currentTimeSlotMins * 15 * 60 \<rparr> \<rparr> \<rparr>)))"

fun buildChargingProfilesFromOptimizerResponse ::
  "collab \<Rightarrow> OptimizerResultCar list \<Rightarrow> real \<Rightarrow> error + ChargingProfile list"
where
  "buildChargingProfilesFromOptimizerResponse env [] currentDurationFromMidnightMins = Inr []"
| "buildChargingProfilesFromOptimizerResponse env (car # rest) currentDurationFromMidnightMins =
     (case buildChargingProfile env car currentDurationFromMidnightMins of
        Inl e \<Rightarrow> Inl e
      | Inr chargingProfile \<Rightarrow>
          (case buildChargingProfilesFromOptimizerResponse env rest
                  currentDurationFromMidnightMins of
             Inl e \<Rightarrow> Inl e
           | Inr chargingProfiles \<Rightarrow> Inr (chargingProfile # chargingProfiles)))"

section \<open>The translation cycle: \<^verbatim>\<open>buildChargingProfiles\<close>\<close>

text \<open>
  The result is the value the function returns or the error it throws, paired with the
  list of the HTTP calls made to the optimizer. \<open>None\<close> is the \<^verbatim>\<open>undefined\<close> of the
  bare \<^verbatim>\<open>return;\<close>.
\<close>

definition buildChargingProfiles ::
  "collab \<Rightarrow> SapSmartChargingSetting \<Rightarrow> ChargingProfile list \<Rightarrow> SiteArea \<Rightarrow> string list option \<Rightarrow>
   (error + ChargingProfile list option) \<times> (string \<times> OptimizerChargingProfilesRequest) list"
where
  "buildChargingProfiles env setting currentChargingProfiles0 siteArea0 excluded =
     (let currentDurationFromMidnightSeconds = moment_diff_seconds (now env) (startOfDay env);
          siteArea = siteArea0\<lparr>chargingStations := getChargingStations env (sa_id siteArea0)\<rparr>
      in case buildOptimizerRequest env setting currentChargingProfiles0 siteArea
                currentDurationFromMidnightSeconds excluded of
           Inl e \<Rightarrow> (Inl e, [])
         | Inr request \<Rightarrow>
             (case buildOptimizerUrl env setting of
                Inl e \<Rightarrow> (Inl e, [])
              | Inr url \<Rightarrow>
                  if length (cars request) = 0 then (Inr None, [])
                  else
                    (case post env url request of
                       Inl e \<Rightarrow> (Inl e, [(url, request)])
                     | Inr response \<Rightarrow>
                         (case buildChargingProfilesFromOptimizerResponse env response
                                 (real_of_int currentDurationFromMidnightSeconds / 60) of
                            Inl e \<Rightarrow> (Inl e, [(url, request)])
                          | Inr chargingProfiles \<Rightarrow>
                              (Inr (Some chargingProfiles), [(url, request)])))))"

section \<open>Notions the properties are stated with\<close>

subsection \<open>Fuse tree\<close>

text \<open>
  A station fuse conserves capacity when each of its three per-phase capacities is the
  sum of the corresponding capacities of its connector leaves.
\<close>

definition conserves :: "OptimizerChargingStationFuse \<Rightarrow> bool" where
  "conserves stationFuse =
     (fusePhase1 stationFuse = sum_list (map fusePhase1 (children stationFuse)) \<and>
      fusePhase2 stationFuse = sum_list (map fusePhase2 (children stationFuse)) \<and>
      fusePhase3 stationFuse = sum_list (map fusePhase3 (children stationFuse)))"

text \<open>
  The identifiers of the fuses of a request in the order in which
  \<^verbatim>\<open>buildOptimizerRequest\<close> constructs them: the root fuse, then for each station its
  connector leaves followed by the station fuse itself.
\<close>

definition stationConstructionIds :: "OptimizerChargingStationFuse \<Rightarrow> nat list" where
  "stationConstructionIds stationFuse = map fuse_id (children stationFuse) @ [fuse_id stationFuse]"

definition constructionIds :: "OptimizerChargingProfilesRequest \<Rightarrow> nat list" where
  "constructionIds request =
     fuse_id (rootFuse request) #
     concat (map stationConstructionIds (children (rootFuse request)))"

text \<open>The connector leaves of the fuse tree, from left to right.\<close>

definition leafFuses :: "OptimizerChargingProfilesRequest \<Rightarrow> OptimizerChargingStationConnectorFuse list" where
  "leafFuses request = concat (map children (children (rootFuse request)))"

subsection \<open>Site capacity removed by the sanitizer\<close>

text \<open>
  \<open>lastPerKey k xs\<close> keeps of the elements of \<open>xs\<close> that share a key the last one: each
  key is counted once.
\<close>

fun lastPerKey :: "('a \<Rightarrow> 'k) \<Rightarrow> 'a list \<Rightarrow> 'a list" where
  "lastPerKey k [] = []"
| "lastPerKey k (x # xs) =
     (if k x \<in> set (map k xs) then lastPerKey k xs else x # lastPerKey k xs)"

definition resolvedChargePoint :: "collab \<Rightarrow> ChargingStation \<Rightarrow> Connector \<Rightarrow> ChargePoint option" where
  "resolvedChargePoint env chargingStation connector =
     (if truthyN (conn_chargePointID connector)
      then getChargePointFromID env chargingStation (conn_chargePointID connector)
      else None)"








text \<open>
  The same amounts told without the order of the visit, for collaborators whose answers
  about a charge point do not depend on the connectors pruned already.
\<close>

text \<open>A connector is on an excluded charge point.\<close>

definition onExcludedChargePoint :: "collab \<Rightarrow> ChargingStation \<Rightarrow> Connector \<Rightarrow> bool" where
  "onExcludedChargePoint env chargingStation connector =
     (case resolvedChargePoint env chargingStation connector of
        None \<Rightarrow> False
      | Some chargePoint \<Rightarrow> excludeFromPowerLimitation chargePoint)"

definition chargePointKey :: "collab \<Rightarrow> ChargingStation \<Rightarrow> Connector \<Rightarrow> nat option" where
  "chargePointKey env chargingStation connector =
     map_option chargePointID (resolvedChargePoint env chargingStation connector)"

text \<open>The rated amperage of the charge point of a connector.\<close>

definition ratedAmperage :: "collab \<Rightarrow> ChargingStation \<Rightarrow> Connector \<Rightarrow> real" where
  "ratedAmperage env chargingStation connector =
     getChargingStationAmperage env chargingStation
       (resolvedChargePoint env chargingStation connector) (connectorId connector)"




text \<open>
  The amperage still to be removed for the first \<open>j\<close> connectors of a station when the
  charge points \<open>processed\<close> have been counted already (the invariant of the inner loop).
\<close>

definition pendingAmps :: "collab \<Rightarrow> ChargingStation \<Rightarrow> nat \<Rightarrow> nat list \<Rightarrow> real" where
  "pendingAmps env cs j processed =
     sum_list (map (ratedAmperage env cs)
       (filter (\<lambda>c. chargePointKey env cs c \<notin> Some ` set processed)
          (lastPerKey (chargePointKey env cs)
             (filter (onExcludedChargePoint env cs) (take j (connectors cs))))))"


subsection \<open>Car model\<close>

text \<open>
  The car model as \<^verbatim>\<open>buildCar\<close> has it when it calls \<^verbatim>\<open>overrideCarWithRuntimeData\<close>: the
  safe car, with the data of the vehicle where the transaction names one.
\<close>

definition carWithVehicle ::
  "collab \<Rightarrow> nat \<Rightarrow> ChargingStation \<Rightarrow> Transaction \<Rightarrow> int \<Rightarrow> OptimizerCar" where
  "carWithVehicle env fuseID chargingStation transaction currentTimeSecs =
     (case carID transaction of
        Some cid \<Rightarrow>
          if cid \<noteq> [] then
            overrideCarWithVehicle env chargingStation transaction (getCar env cid)
              (buildSafeCar env fuseID chargingStation transaction currentTimeSecs)
          else buildSafeCar env fuseID chargingStation transaction currentTimeSecs
      | None \<Rightarrow> buildSafeCar env fuseID chargingStation transaction currentTimeSecs)"

subsection \<open>Schedule periods\<close>

text \<open>
  The condition that ends the emission of periods when \<open>k\<close> periods have been emitted:
  the maximum number of periods has been walked, the index has reached the end of the
  plan, or the slot's value is not greater than 0 and three periods have been emitted.
\<close>

definition maxPeriods :: "int option \<Rightarrow> int" where
  "maxPeriods maxScheduleLength = (case maxScheduleLength of Some m \<Rightarrow> m | None \<Rightarrow> 20)"

definition stopsAt :: "real list \<Rightarrow> int \<Rightarrow> nat \<Rightarrow> nat \<Rightarrow> bool" where
  "stopsAt plan maxLength start k =
     (maxLength \<le> int k \<or> length plan \<le> start + k \<or> (\<not> plan ! (start + k) > 0 \<and> 3 \<le> k))"

section \<open>An installation to run the functions on\<close>

text \<open>
  A concrete set of collaborators and a small installation, used to evaluate the
  functions at explicit inputs. Identifiers resolve by search in the station; every
  station runs at 230 V on alternating current; every charge point is rated 32 A and
  32 A per phase; rounding is \<^verbatim>\<open>Math.round(value * 10^scale) / 10^scale\<close>.
\<close>

definition roundTo_example :: "real \<Rightarrow> nat \<Rightarrow> real" where
  "roundTo_example v scale = real_of_int \<lfloor>v * 10 ^ scale + 1 / 2\<rfloor> / 10 ^ scale"

definition decimal :: "string \<Rightarrow> nat" where
  "decimal s = foldl (\<lambda>n c. 10 * n + (of_char c - 48)) 0 s"

definition sampleTransaction :: "nat \<Rightarrow> Transaction" where
  "sampleTransaction tid =
     \<lparr> tx_id = tid, chargeBoxID = ''CS'' @ show_nat (tid div 10), tx_connectorId = tid mod 10,
       timestamp = 88200000, currentTotalConsumptionWh = 2300, currentInstantAmps = 20,
       currentInstantWattsDC = 0, phasesUsed = None, carID = None \<rparr>"

definition sampleChargePoint :: "nat \<Rightarrow> nat list \<Rightarrow> ChargePoint" where
  "sampleChargePoint cpid cids =
     \<lparr> chargePointID = cpid, connectorIDs = cids, sharePowerToAllConnectors = False,
       cannotChargeInParallel = False, excludeFromPowerLimitation = False, efficiency = None \<rparr>"

definition sampleConnector :: "nat \<Rightarrow> nat \<Rightarrow> nat \<Rightarrow> Connector" where
  "sampleConnector cid cpid tid =
     \<lparr> connectorId = cid, status = Charging, conn_chargePointID = Some cpid,
       currentTransactionID = Some tid, numberOfConnectedPhase = 3, amperage = 32 \<rparr>"

definition stationA :: ChargingStation where
  "stationA =
     \<lparr> cs_id = ''CS1'', excludeFromSmartCharging = False, cs_maximumPower = 22080,
       connectors = [sampleConnector 1 1 11, sampleConnector 2 1 12],
       chargePoints = [sampleChargePoint 1 [1, 2]] \<rparr>"

definition stationB :: ChargingStation where
  "stationB =
     \<lparr> cs_id = ''CS2'', excludeFromSmartCharging = False, cs_maximumPower = 22080,
       connectors = [sampleConnector 1 1 21],
       chargePoints = [sampleChargePoint 1 [1]] \<rparr>"

text \<open>A station that is excluded from smart charging.\<close>

definition stationX :: ChargingStation where
  "stationX =
     \<lparr> cs_id = ''CS3'', excludeFromSmartCharging = True, cs_maximumPower = 7360,
       connectors = [sampleConnector 1 1 31],
       chargePoints = [sampleChargePoint 1 [1]] \<rparr>"

text \<open>
  A station whose charge point 1 is excluded from power limitation and serves the
  connectors 1 and 2; connector 3 is on charge point 2.
\<close>

definition stationP :: ChargingStation where
  "stationP =
     \<lparr> cs_id = ''CS4'', excludeFromSmartCharging = False, cs_maximumPower = 22080,
       connectors = [sampleConnector 1 1 41, sampleConnector 2 1 42, sampleConnector 3 2 43],
       chargePoints = [(sampleChargePoint 1 [1, 2])\<lparr>excludeFromPowerLimitation := True\<rparr>,
                       sampleChargePoint 2 [3]] \<rparr>"


text \<open>
  A station whose charge point cannot charge in parallel, with both connectors charging.
\<close>

definition stationM :: ChargingStation where
  "stationM =
     \<lparr> cs_id = ''CS5'', excludeFromSmartCharging = False, cs_maximumPower = 22080,
       connectors = [sampleConnector 1 1 51, sampleConnector 2 1 52],
       chargePoints = [(sampleChargePoint 1 [1, 2])\<lparr>cannotChargeInParallel := True\<rparr>] \<rparr>"

text \<open>A station with a connector whose charge point does not exist.\<close>

definition stationD :: ChargingStation where
  "stationD =
     \<lparr> cs_id = ''CS6'', excludeFromSmartCharging = False, cs_maximumPower = 22080,
       connectors = [sampleConnector 1 1 61],
       chargePoints = [] \<rparr>"

text \<open>A station whose charge point declares a conversion efficiency of 90 percent.\<close>

definition stationE :: ChargingStation where
  "stationE =
     \<lparr> cs_id = ''CS7'', excludeFromSmartCharging = False, cs_maximumPower = 22080,
       connectors = [sampleConnector 1 1 71],
       chargePoints = [(sampleChargePoint 1 [1])\<lparr>efficiency := Some 90\<rparr>] \<rparr>"

definition sampleSite :: "ChargingStation list \<Rightarrow> SiteArea" where
  "sampleSite stations =
     \<lparr> sa_id = ''SA'', maximumPower = 46000, voltage = 230, numberOfPhases = 3,
       chargingStations = stations \<rparr>"

definition sampleSetting :: SapSmartChargingSetting where
  "sampleSetting =
     \<lparr> optimizerUrl = ''https://optimizer.example'', user = ''u'', password = ''p'',
       stickyLimitation = False, limitBufferAC = Some 10, limitBufferDC = Some 10 \<rparr>"

definition sampleEnv :: collab where
  "sampleEnv =
     \<lparr> getChargingStationVoltage = (\<lambda>cs. 230),
       getChargePointFromID =
         (\<lambda>cs cpid. case cpid of
                      None \<Rightarrow> None
                    | Some i \<Rightarrow> find (\<lambda>cp. chargePointID cp = i) (chargePoints cs)),
       getConnectorFromID = (\<lambda>cs cid. find (\<lambda>c. connectorId c = cid) (connectors cs)),
       getChargingStationAmperage = (\<lambda>cs cp cid. 32),
       getChargingStationAmperagePerPhase = (\<lambda>cs cp cid. 32),
       getChargingStationCurrentType = (\<lambda>cs cp cid. Some AC),
       getNumberOfConnectedPhases =
         (\<lambda>cs cp cid. case find (\<lambda>c. connectorId c = cid) (connectors cs) of
                        None \<Rightarrow> 0
                      | Some c \<Rightarrow> numberOfConnectedPhase c),
       getNumberOfUsedPhasesInTransactionInProgress =
         (\<lambda>cs t. case phasesUsed t of
                    None \<Rightarrow> - 1
                  | Some u \<Rightarrow> (if csPhase1 u then 1 else 0) + (if csPhase2 u then 1 else 0) +
                              (if csPhase3 u then 1 else 0)),
       convertWattToAmp = (\<lambda>cs cp cid watts. watts / 230),
       roundTo = roundTo_example,
       convertToInt = (\<lambda>s. case s of None \<Rightarrow> 0 | Some t \<Rightarrow> decimal t),
       parseInt = (\<lambda>s. case s of None \<Rightarrow> None | Some t \<Rightarrow> Some (int (decimal t))),
       DC_CHARGING_STATION_DEFAULT_EFFICIENCY_PERCENT = 80,
       MIN_LIMIT_PER_PHASE = 6,
       checkIfSiteAreaIsValid =
         (\<lambda>sa. maximumPower sa \<noteq> 0 \<and> voltage sa \<noteq> 0 \<and>
               (numberOfPhases sa = 1 \<or> numberOfPhases sa = 3)),
       getTransaction = (\<lambda>tid. Some (sampleTransaction tid)),
       getCar = (\<lambda>cid. None),
       getChargingStation =
         map_of [(''CS1'', stationA), (''CS2'', stationB), (''CS3'', stationX),
                 (''CS4'', stationP), (''CS5'', stationM), (''CS6'', stationD),
                 (''CS7'', stationE)],
       getChargingStations = (\<lambda>said. [stationX]),
       getChargingProfiles = (\<lambda>ids. []),
       getOcppParameterValue = (\<lambda>csid key. None),
       decrypt = (\<lambda>s. s),
       post = (\<lambda>url request. Inl UpstreamError),
       now = 86400000 + 3600000,
       startOfDay = 86400000 \<rparr>"

text \<open>The same collaborators on direct current.\<close>

definition sampleEnvDC :: collab where
  "sampleEnvDC = sampleEnv\<lparr>getChargingStationCurrentType := (\<lambda>cs cp cid. Some DC)\<rparr>"

text \<open>
  The same collaborators with an amperage that depends on the connectors left at the
  station: 10 A for each of them.
\<close>

definition sampleEnvCounting :: collab where
  "sampleEnvCounting =
     sampleEnv\<lparr>getChargingStationAmperage :=
       (\<lambda>cs cp cid. 10 * real (length (connectors cs)))\<rparr>"

text \<open>
  An optimizer result for connector 1 of station \<^verbatim>\<open>CS1\<close>: the plan is read from slot 4
  at one o'clock.
\<close>

definition sampleResult :: "OptimizerResultCar list" where
  "sampleResult = [\<lparr> res_name = ''CS1~1'', currentPlan = [0, 0, 0, 0, 16, 16, 0, 0, 16] \<rparr>]"

definition sampleProfile :: ChargingProfile where
  "sampleProfile =
     \<lparr> chargingStationID = ''CS1'', connectorID = 1, profile_chargePointID = 1,
       profile =
         \<lparr> chargingProfileId = 1, chargingProfileKind = ''Absolute'',
           chargingProfilePurpose = ''TxProfile'', transactionId = Some 11, stackLevel = 2,
           chargingSchedule =
             \<lparr> chargingRateUnit = ''A'',
               chargingSchedulePeriod =
                 [\<lparr> startPeriod = 0, limit = 48 \<rparr>, \<lparr> startPeriod = 900, limit = 48 \<rparr>,
                  \<lparr> startPeriod = 1800, limit = 0 \<rparr>],
               startSchedule = 90000000, duration = 2700 \<rparr> \<rparr> \<rparr>"

text \<open>
  Sticky limitation: the profile issued by the previous cycle for connector 1 of
  \<^verbatim>\<open>CS1\<close> limits the session to 96 A, that is 32 A per phase of the station; the meter
  reports one phase in use and 20 A.
\<close>

definition stickySetting :: SapSmartChargingSetting where
  "stickySetting = sampleSetting\<lparr>stickyLimitation := True\<rparr>"

definition previousProfile :: ChargingProfile where
  "previousProfile =
     sampleProfile\<lparr>profile := (profile sampleProfile)\<lparr>chargingSchedule :=
       (chargingSchedule (profile sampleProfile))\<lparr>chargingSchedulePeriod :=
          [\<lparr> startPeriod = 0, limit = 96 \<rparr>, \<lparr> startPeriod = 900, limit = 96 \<rparr>]\<rparr>\<rparr>\<rparr>"

definition meteredTransaction :: Transaction where
  "meteredTransaction =
     (sampleTransaction 11)\<lparr>phasesUsed :=
        Some \<lparr> csPhase1 = True, csPhase2 = False, csPhase3 = False \<rparr>\<rparr>"

text \<open>The same session drawing nothing, and the same session with 20 A on three phases.\<close>

definition idleTransaction :: Transaction where
  "idleTransaction = meteredTransaction\<lparr>currentInstantAmps := 0\<rparr>"

definition threePhaseTransaction :: Transaction where
  "threePhaseTransaction =
     (sampleTransaction 11)\<lparr>phasesUsed :=
        Some \<lparr> csPhase1 = True, csPhase2 = True, csPhase3 = True \<rparr>\<rparr>"

text \<open>
  The request built for a site area whose only station is excluded from smart charging:
  no car is left.
\<close>

definition emptyRequest :: OptimizerChargingProfilesRequest where
  "emptyRequest =
     \<lparr> eventType = ''Reoptimize'',
       rootFuse = \<lparr> fuse_type = ''Fuse'', fuse_id = 0, fusePhase1 = 56, fusePhase2 = 56,
                    fusePhase3 = 56, phase1Connected = True, phase2Connected = True,
                    phase3Connected = True, children = [] \<rparr>,
       cars = [], carAssignments = [], currentTimeSeconds = 3600 \<rparr>"

text \<open>
  The request built for the two stations \<^verbatim>\<open>CS1\<close> (two connectors) and \<^verbatim>\<open>CS2\<close> (one
  connector) at one o'clock.
\<close>

definition sampleLeaf :: "nat \<Rightarrow> OptimizerChargingStationConnectorFuse" where
  "sampleLeaf fid =
     \<lparr> fuse_type = ''ChargingStation'', fuse_id = fid, fusePhase1 = 32 / 3, fusePhase2 = 32 / 3,
       fusePhase3 = 32 / 3, phase1Connected = True, phase2Connected = True,
       phase3Connected = True \<rparr>"

definition sampleStationFuse ::
  "nat \<Rightarrow> real \<Rightarrow> OptimizerChargingStationConnectorFuse list \<Rightarrow> OptimizerChargingStationFuse"
where
  "sampleStationFuse fid amps leaves =
     \<lparr> fuse_type = ''Fuse'', fuse_id = fid, fusePhase1 = amps, fusePhase2 = amps,
       fusePhase3 = amps, phase1Connected = True, phase2Connected = True,
       phase3Connected = True, children = leaves \<rparr>"

definition sampleCar :: "nat \<Rightarrow> string \<Rightarrow> OptimizerCar" where
  "sampleCar fid nm =
     \<lparr> canLoadPhase1 = 1, canLoadPhase2 = 1, canLoadPhase3 = 1, car_id = fid,
       timestampArrival = 1800, carType = ''BEV'', maxCapacity = 10000 / 23,
       minLoadingState = 5000 / 23, startCapacity = 10, minCurrent = 18,
       minCurrentPerPhase = 6, maxCurrent = 96, maxCurrentPerPhase = 32, suspendable = True,
       immediateStart = False, canUseVariablePower = True, car_name = nm \<rparr>"

definition sampleRequest :: OptimizerChargingProfilesRequest where
  "sampleRequest =
     \<lparr> eventType = ''Reoptimize'',
       rootFuse =
         \<lparr> fuse_type = ''Fuse'', fuse_id = 0, fusePhase1 = 200 / 3, fusePhase2 = 200 / 3,
           fusePhase3 = 200 / 3, phase1Connected = True, phase2Connected = True,
           phase3Connected = True,
           children = [sampleStationFuse 3 (64 / 3) [sampleLeaf 1, sampleLeaf 2],
                       sampleStationFuse 5 (32 / 3) [sampleLeaf 4]] \<rparr>,
       cars = [sampleCar 1 ''CS1~1'', sampleCar 2 ''CS1~2'', sampleCar 4 ''CS2~1''],
       carAssignments =
         [\<lparr> carID_assigned = 1, chargingStationID_assigned = 1 \<rparr>,
          \<lparr> carID_assigned = 2, chargingStationID_assigned = 2 \<rparr>,
          \<lparr> carID_assigned = 4, chargingStationID_assigned = 4 \<rparr>],
       currentTimeSeconds = 3600 \<rparr>"

text \<open>
  The site area that the sanitizer leaves of the stations \<^verbatim>\<open>CS3\<close> (excluded), \<^verbatim>\<open>CS4\<close>
  (charge point 1 excluded from power limitation) and \<^verbatim>\<open>CS1\<close>.
\<close>

definition prunedSite :: SiteArea where
  "prunedSite =
     \<lparr> sa_id = ''SA'', maximumPower = 31280, voltage = 230, numberOfPhases = 3,
       chargingStations =
         [stationP\<lparr>connectors := [sampleConnector 1 1 41, sampleConnector 3 2 43]\<rparr>,
          stationA] \<rparr>"

text \<open>
  The same plan for connector 1 of station \<^verbatim>\<open>CS7\<close>, and the profile built from it on
  direct current.
\<close>

definition sampleResultDC :: "OptimizerResultCar list" where
  "sampleResultDC = [\<lparr> res_name = ''CS7~1'', currentPlan = [0, 0, 0, 0, 16, 16, 0, 0, 16] \<rparr>]"

definition sampleProfileDC :: ChargingProfile where
  "sampleProfileDC =
     \<lparr> chargingStationID = ''CS7'', connectorID = 1, profile_chargePointID = 1,
       profile =
         \<lparr> chargingProfileId = 1, chargingProfileKind = ''Absolute'',
           chargingProfilePurpose = ''TxProfile'', transactionId = Some 71, stackLevel = 2,
           chargingSchedule =
             \<lparr> chargingRateUnit = ''A'',
               chargingSchedulePeriod =
                 [\<lparr> startPeriod = 0, limit = 216 / 5 \<rparr>, \<lparr> startPeriod = 900, limit = 216 / 5 \<rparr>,
                  \<lparr> startPeriod = 1800, limit = 0 \<rparr>],
               startSchedule = 90000000, duration = 2700 \<rparr> \<rparr> \<rparr>"

section \<open>Properties\<close>

subsection \<open>The example collaborators, field by field\<close>

lemma sampleEnv_sel [simp]:
  "getChargingStationVoltage sampleEnv = (\<lambda>cs. 230)"
  "getChargePointFromID sampleEnv =
     (\<lambda>cs cpid. case cpid of None \<Rightarrow> None | Some i \<Rightarrow> find (\<lambda>cp. chargePointID cp = i) (chargePoints cs))"
  "getConnectorFromID sampleEnv = (\<lambda>cs cid. find (\<lambda>c. connectorId c = cid) (connectors cs))"
  "getChargingStationAmperage sampleEnv = (\<lambda>cs cp cid. 32)"
  "getChargingStationAmperagePerPhase sampleEnv = (\<lambda>cs cp cid. 32)"
  "getChargingStationCurrentType sampleEnv = (\<lambda>cs cp cid. Some AC)"
  "getNumberOfConnectedPhases sampleEnv =
     (\<lambda>cs cp cid. case find (\<lambda>c. connectorId c = cid) (connectors cs) of
                        None \<Rightarrow> 0 | Some c \<Rightarrow> numberOfConnectedPhase c)"
  "getNumberOfUsedPhasesInTransactionInProgress sampleEnv =
     (\<lambda>cs t. case phasesUsed t of
                None \<Rightarrow> - 1
              | Some u \<Rightarrow> (if csPhase1 u then 1 else 0) + (if csPhase2 u then 1 else 0) +
                          (if csPhase3 u then 1 else 0))"
  "checkIfSiteAreaIsValid sampleEnv =
     (\<lambda>sa. maximumPower sa \<noteq> 0 \<and> voltage sa \<noteq> 0 \<and>
           (numberOfPhases sa = 1 \<or> numberOfPhases sa = 3))"
  "convertWattToAmp sampleEnv = (\<lambda>cs cp cid watts. watts / 230)"
  "roundTo sampleEnv = roundTo_example"
  "convertToInt sampleEnv = (\<lambda>s. case s of None \<Rightarrow> 0 | Some t \<Rightarrow> decimal t)"
  "parseInt sampleEnv = (\<lambda>s. case s of None \<Rightarrow> None | Some t \<Rightarrow> Some (int (decimal t)))"
  "DC_CHARGING_STATION_DEFAULT_EFFICIENCY_PERCENT sampleEnv = 80"
  "MIN_LIMIT_PER_PHASE sampleEnv = 6"
  "getTransaction sampleEnv = (\<lambda>tid. Some (sampleTransaction tid))"
  "getCar sampleEnv = (\<lambda>cid. None)"
  "getChargingStation sampleEnv =
         map_of [(''CS1'', stationA), (''CS2'', stationB), (''CS3'', stationX),
                 (''CS4'', stationP), (''CS5'', stationM), (''CS6'', stationD),
                 (''CS7'', stationE)]"
  "getChargingStations sampleEnv = (\<lambda>said. [stationX])"
  "getChargingProfiles sampleEnv = (\<lambda>ids. [])"
  "getOcppParameterValue sampleEnv = (\<lambda>csid key. None)"
  "decrypt sampleEnv = (\<lambda>s. s)"
  "post sampleEnv = (\<lambda>url request. Inl UpstreamError)"
  "now sampleEnv = 90000000"
  "startOfDay sampleEnv = 86400000"
  by (simp_all add: sampleEnv_def)


subsection \<open>Plan translator\<close>

lemma periodsLoop_inv:
  "periodsLoop f plan bound i ps slot = (ps', slot') \<Longrightarrow>
   \<exists>n. slot' = slot + n \<and>
       ps' = ps @ map (\<lambda>k. \<lparr> startPeriod = (slot + k) * 15 * 60, limit = f (plan ! (i + k)) \<rparr>) [0..<n] \<and>
       (\<forall>k<n. int (i + k) < bound \<and> i + k < length plan \<and> (plan ! (i + k) > 0 \<or> length ps + k < 3)) \<and>
       \<not> (int (i + n) < bound \<and> i + n < length plan \<and> (plan ! (i + n) > 0 \<or> length ps + n < 3))"
proof (induction f plan bound i ps slot arbitrary: ps' slot' rule: periodsLoop.induct)
  case (1 f plan bound i ps slot)
  let ?go = "int i < bound \<and> i < length plan \<and> (plan ! i > 0 \<or> length ps < 3)"
  show ?case
  proof (cases ?go)
    case False
    with "1.prems" have "ps' = ps" "slot' = slot"
      by (simp_all add: periodsLoop.simps [of f plan bound i ps slot])
    with False show ?thesis
      by (intro exI [of _ 0]) simp
  next
    case True
    let ?p = "\<lparr> startPeriod = slot * 15 * 60, limit = f (plan ! i) \<rparr>"
    from True "1.prems" have rec: "periodsLoop f plan bound (Suc i) (ps @ [?p]) (Suc slot) = (ps', slot')"
      by (simp add: periodsLoop.simps [of f plan bound i ps slot])
    from "1.IH" [OF True rec] obtain n where
      n1: "slot' = Suc slot + n" and
      n2: "ps' = (ps @ [?p]) @ map (\<lambda>k. \<lparr> startPeriod = (Suc slot + k) * 15 * 60, limit = f (plan ! (Suc i + k)) \<rparr>) [0..<n]" and
      n3: "\<forall>k<n. int (Suc i + k) < bound \<and> Suc i + k < length plan \<and> (plan ! (Suc i + k) > 0 \<or> length (ps @ [?p]) + k < 3)" and
      n4: "\<not> (int (Suc i + n) < bound \<and> Suc i + n < length plan \<and> (plan ! (Suc i + n) > 0 \<or> length (ps @ [?p]) + n < 3))"
      by blast
    have a: "slot' = slot + Suc n" using n1 by simp
    have b: "ps' = ps @ map (\<lambda>k. \<lparr> startPeriod = (slot + k) * 15 * 60, limit = f (plan ! (i + k)) \<rparr>) [0..<Suc n]"
      unfolding n2 by (simp add: map_upt_Suc del: upt_Suc)
    have c: "\<forall>k<Suc n. int (i + k) < bound \<and> i + k < length plan \<and> (plan ! (i + k) > 0 \<or> length ps + k < 3)"
    proof (intro allI impI)
      fix k assume "k < Suc n"
      show "int (i + k) < bound \<and> i + k < length plan \<and> (plan ! (i + k) > 0 \<or> length ps + k < 3)"
      proof (cases k)
        case 0 with True show ?thesis by simp
      next
        case (Suc k')
        with \<open>k < Suc n\<close> have "k' < n" by simp
        with n3 Suc show ?thesis by simp
      qed
    qed
    have d: "\<not> (int (i + Suc n) < bound \<and> i + Suc n < length plan \<and> (plan ! (i + Suc n) > 0 \<or> length ps + Suc n < 3))"
      using n4 by simp
    from a b c d show ?thesis by blast
  qed
qed

text \<open>The loop started as the source starts it: no period yet, slot counter 0.\<close>

lemma periodsLoop_start:
  assumes "periodsLoop f plan (scheduleBound start m) start [] 0 = (periods, slots)"
  shows "slots = length periods"
    and "periods = map (\<lambda>k. \<lparr> startPeriod = k * 15 * 60, limit = f (plan ! (start + k)) \<rparr>) [0..<length periods]"
    and "stopsAt plan (maxPeriods m) start (length periods)"
    and "\<forall>k<length periods. \<not> stopsAt plan (maxPeriods m) start k"
proof -
  from periodsLoop_inv [OF assms] obtain n where
    n1: "slots = n" and
    n2: "periods = map (\<lambda>k. \<lparr> startPeriod = k * 15 * 60, limit = f (plan ! (start + k)) \<rparr>) [0..<n]" and
    n3: "\<forall>k<n. int (start + k) < scheduleBound start m \<and> start + k < length plan \<and> (plan ! (start + k) > 0 \<or> k < 3)" and
    n4: "\<not> (int (start + n) < scheduleBound start m \<and> start + n < length plan \<and> (plan ! (start + n) > 0 \<or> n < 3))"
    by auto
  have len: "length periods = n" using n2 by simp
  have bound: "\<And>k. int (start + k) < scheduleBound start m \<longleftrightarrow> int k < maxPeriods m"
    by (simp add: scheduleBound_def maxPeriods_def split: option.split)
  show "slots = length periods" using n1 len by simp
  show "periods = map (\<lambda>k. \<lparr> startPeriod = k * 15 * 60, limit = f (plan ! (start + k)) \<rparr>) [0..<length periods]"
    using n2 len by simp
  show "stopsAt plan (maxPeriods m) start (length periods)"
    using n4 unfolding len bound stopsAt_def by auto
  show "\<forall>k<length periods. \<not> stopsAt plan (maxPeriods m) start k"
    using n3 unfolding len bound stopsAt_def by auto
qed

lemma profiles_pointwise:
  "buildChargingProfilesFromOptimizerResponse env result mins = Inr profiles \<Longrightarrow>
   list_all2 (\<lambda>car cp. buildChargingProfile env car mins = Inr cp) result profiles"
proof (induction result arbitrary: profiles)
  case Nil
  then show ?case by simp
next
  case (Cons car rest)
  then show ?case
    by (auto split: sum.splits)
qed

text \<open>What a successful run of the loop body has resolved and computed.\<close>

lemma buildChargingProfile_Inr:
  assumes "buildChargingProfile env car mins = Inr cp"
  shows "\<exists>cs conn phases.
           getChargingStation env (split_tilde (res_name car) ! 0) = Some cs \<and>
           getConnectorFromID env cs (convertToInt env (nth_opt (split_tilde (res_name car)) 1))
             = Some conn \<and>
           periodsLoop (calculateCarConsumption env cs conn phases) (currentPlan car)
             (scheduleBound (startSlot mins)
                (parseInt env (getOcppParameterValue env (split_tilde (res_name car) ! 0)
                   ''ChargingScheduleMaxPeriods'')))
             (startSlot mins) [] 0
           = (chargingSchedulePeriod (chargingSchedule (profile cp)),
              duration (chargingSchedule (profile cp)) div 900) \<and>
           duration (chargingSchedule (profile cp)) mod 900 = 0"
  using assms
  by (auto simp: buildChargingProfile_def Let_def split: option.splits prod.splits if_splits)

lemma sampleResult_profiles:
  "buildChargingProfilesFromOptimizerResponse sampleEnv sampleResult 60 = Inr [sampleProfile]"
  by (simp add: sampleResult_def sampleProfile_def buildChargingProfile_def nth_opt_def
      decimal_def stationA_def sampleConnector_def sampleChargePoint_def truthyN_def
      startSlot_def scheduleBound_def periodsLoop.simps calculateCarConsumption_def
      roundTo_example_def)

text \<open>
  C10. In every charging profile built from an optimizer response, the \<open>k\<close>-th emitted
  period (counted from 0) starts at \<open>k * 900\<close> seconds, and the duration of the schedule
  is 900 seconds times the number of emitted periods (0 for an empty schedule).
\<close>

theorem schedule_periods_contiguous:
  assumes "buildChargingProfilesFromOptimizerResponse env result mins = Inr profiles"
    and "cp \<in> set profiles"
  shows "(\<forall>k < length (chargingSchedulePeriod (chargingSchedule (profile cp))).
            startPeriod (chargingSchedulePeriod (chargingSchedule (profile cp)) ! k) = k * 900) \<and>
         duration (chargingSchedule (profile cp)) =
           900 * length (chargingSchedulePeriod (chargingSchedule (profile cp)))"
proof -
  let ?sched = "chargingSchedule (profile cp)"
  let ?periods = "chargingSchedulePeriod ?sched"
  from profiles_pointwise [OF assms(1)] assms(2)
  obtain car where car: "buildChargingProfile env car mins = Inr cp"
    by (auto simp: list_all2_conv_all_nth in_set_conv_nth)
  define m where "m = parseInt env (getOcppParameterValue env (split_tilde (res_name car) ! 0)
    ''ChargingScheduleMaxPeriods'')"
  from buildChargingProfile_Inr [OF car] obtain cs conn phases where
    run0: "periodsLoop (calculateCarConsumption env cs conn phases) (currentPlan car)
            (scheduleBound (startSlot mins) m) (startSlot mins) [] 0
            = (?periods, duration ?sched div 900)"
    and whole: "duration ?sched mod 900 = 0"
    unfolding m_def by (elim exE conjE) simp
  define f where "f = calculateCarConsumption env cs conn phases"
  have run: "periodsLoop f (currentPlan car) (scheduleBound (startSlot mins) m) (startSlot mins) [] 0
            = (?periods, duration ?sched div 900)"
    using run0 by (simp add: f_def)
  from periodsLoop_start(1) [OF run] whole
  have dur: "duration ?sched = 900 * length ?periods"
    by (metis mult_div_mod_eq add.right_neutral)
  have "\<forall>k < length ?periods. startPeriod (?periods ! k) = k * 900"
  proof (intro allI impI)
    fix k assume k: "k < length ?periods"
    let ?g = "\<lambda>k. \<lparr> startPeriod = k * 15 * 60,
                     limit = f (currentPlan car ! (startSlot mins + k)) \<rparr>"
    have "?periods ! k = map ?g [0..<length ?periods] ! k"
      using periodsLoop_start(2) [OF run] by simp
    also have "\<dots> = ?g k"
      using k by simp
    finally show "startPeriod (?periods ! k) = k * 900"
      by simp
  qed
  with dur show ?thesis by blast
qed

theorem schedule_periods_contiguous_witness:
  "buildChargingProfilesFromOptimizerResponse sampleEnv sampleResult 60 = Inr [sampleProfile] \<and>
   map startPeriod (chargingSchedulePeriod (chargingSchedule (profile sampleProfile)))
     = [0 * 900, 1 * 900, 2 * 900] \<and>
   duration (chargingSchedule (profile sampleProfile)) = 900 * 3"
proof -
  have mem: "sampleProfile \<in> set [sampleProfile]" by simp
  from schedule_periods_contiguous [OF sampleResult_profiles mem] sampleResult_profiles
  show ?thesis
    by (simp add: sampleProfile_def)
qed

text \<open>
  C5. For every car of the optimizer response, the plan is walked from the slot
  \<open>\<lfloor>minutes since midnight / 15\<rfloor>\<close>, and the emission of periods stops exactly at the
  first \<open>k\<close> at which the maximum number of periods (the parsed
  \<^verbatim>\<open>ChargingScheduleMaxPeriods\<close>, 20 when it does not parse) has been walked, the index
  has reached the end of the plan, or the slot's value is not greater than 0 while at
  least 3 periods have been emitted: the condition holds at the number of emitted
  periods and at no smaller number, and the \<open>k\<close>-th period carries the limit computed
  from slot \<open>start + k\<close>.
\<close>

theorem plan_walk_stops_at_first_condition:
  assumes "buildChargingProfilesFromOptimizerResponse env result mins = Inr profiles"
    and "0 \<le> mins"
    and "j < length result"
  shows "\<exists>cs conn phases.
           getChargingStation env (split_tilde (res_name (result ! j)) ! 0) = Some cs \<and>
           getConnectorFromID env cs
             (convertToInt env (nth_opt (split_tilde (res_name (result ! j))) 1)) = Some conn \<and>
           (let plan = currentPlan (result ! j);
                periods = chargingSchedulePeriod (chargingSchedule (profile (profiles ! j)));
                start = startSlot mins;
                maxLength =
                  maxPeriods (parseInt env
                    (getOcppParameterValue env (split_tilde (res_name (result ! j)) ! 0)
                       ''ChargingScheduleMaxPeriods''))
            in int start = \<lfloor>mins / 15\<rfloor> \<and>
               stopsAt plan maxLength start (length periods) \<and>
               (\<forall>k < length periods.
                  \<not> stopsAt plan maxLength start k \<and>
                  limit (periods ! k) =
                    calculateCarConsumption env cs conn phases (plan ! (start + k))))"
proof -
  let ?car = "result ! j"
  let ?cp = "profiles ! j"
  let ?periods = "chargingSchedulePeriod (chargingSchedule (profile ?cp))"
  define m where "m = parseInt env (getOcppParameterValue env (split_tilde (res_name ?car) ! 0)
    ''ChargingScheduleMaxPeriods'')"
  from profiles_pointwise [OF assms(1)] assms(3)
  have car: "buildChargingProfile env ?car mins = Inr ?cp"
    by (simp add: list_all2_conv_all_nth)
  from buildChargingProfile_Inr [OF car] obtain cs conn phases where
    cs: "getChargingStation env (split_tilde (res_name ?car) ! 0) = Some cs" and
    conn: "getConnectorFromID env cs
             (convertToInt env (nth_opt (split_tilde (res_name ?car)) 1)) = Some conn" and
    run0: "periodsLoop (calculateCarConsumption env cs conn phases) (currentPlan ?car)
            (scheduleBound (startSlot mins) m) (startSlot mins) [] 0
            = (?periods, duration (chargingSchedule (profile ?cp)) div 900)"
    unfolding m_def by (elim exE conjE) simp
  define f where "f = calculateCarConsumption env cs conn phases"
  have run: "periodsLoop f (currentPlan ?car) (scheduleBound (startSlot mins) m)
               (startSlot mins) [] 0
             = (?periods, duration (chargingSchedule (profile ?cp)) div 900)"
    using run0 by (simp add: f_def)
  have start: "int (startSlot mins) = \<lfloor>mins / 15\<rfloor>"
    using assms(2) by (simp add: startSlot_def)
  have lim: "limit (?periods ! k) = f (currentPlan ?car ! (startSlot mins + k))"
    if k: "k < length ?periods" for k
  proof -
    let ?g = "\<lambda>k. \<lparr> startPeriod = k * 15 * 60,
                     limit = f (currentPlan ?car ! (startSlot mins + k)) \<rparr>"
    have "?periods ! k = map ?g [0..<length ?periods] ! k"
      using periodsLoop_start(2) [OF run] by simp
    also have "\<dots> = ?g k"
      using k by simp
    finally show ?thesis by simp
  qed
  have body: "int (startSlot mins) = \<lfloor>mins / 15\<rfloor> \<and>
      stopsAt (currentPlan ?car) (maxPeriods m) (startSlot mins) (length ?periods) \<and>
      (\<forall>k < length ?periods.
         \<not> stopsAt (currentPlan ?car) (maxPeriods m) (startSlot mins) k \<and>
         limit (?periods ! k) =
           calculateCarConsumption env cs conn phases (currentPlan ?car ! (startSlot mins + k)))"
    using start periodsLoop_start(3) [OF run] periodsLoop_start(4) [OF run] lim
    by (simp add: f_def)
  show ?thesis
    apply (rule exI [of _ cs], rule exI [of _ conn], rule exI [of _ phases])
    using cs conn body unfolding m_def Let_def by simp
qed

theorem plan_walk_stops_at_first_condition_witness:
  "buildChargingProfilesFromOptimizerResponse sampleEnv sampleResult 60 = Inr [sampleProfile] \<and>
   (0::real) \<le> 60 \<and> 0 < length sampleResult \<and>
   int (startSlot 60) = 4 \<and>
   length (chargingSchedulePeriod (chargingSchedule (profile sampleProfile))) = 3 \<and>
   stopsAt (currentPlan (sampleResult ! 0)) 20 4 3 \<and>
   \<not> stopsAt (currentPlan (sampleResult ! 0)) 20 4 2 \<and>
   \<not> stopsAt (currentPlan (sampleResult ! 0)) 20 4 1 \<and>
   \<not> stopsAt (currentPlan (sampleResult ! 0)) 20 4 0"
proof -
  have nonneg: "(0::real) \<le> 60" by simp
  have idx: "0 < length sampleResult" by (simp add: sampleResult_def)
  from plan_walk_stops_at_first_condition [OF sampleResult_profiles nonneg idx] nonneg idx
    sampleResult_profiles
  show ?thesis
    by (simp add: sampleProfile_def sampleResult_def startSlot_def stopsAt_def)
qed

text \<open>
  C4 (the code deviates). On a connector of a direct-current station whose charge point
  declares no efficiency, \<^verbatim>\<open>calculateCarConsumption\<close> multiplies the plan value by the
  default efficiency constant itself, not by that percentage divided by 100: with the
  constant at 80, a plan value of 10 A on 3 phases gives 2400, where 80 percent of
  \<open>10 * 3\<close> is 24.
\<close>

theorem default_efficiency_not_scaled:
  "calculateCarConsumption sampleEnvDC stationA (sampleConnector 1 1 11) 3 10 = 2400 \<and>
   roundTo sampleEnvDC
     (10 * (DC_CHARGING_STATION_DEFAULT_EFFICIENCY_PERCENT sampleEnvDC / 100) * 3) 3 = 24"
  by (simp add: calculateCarConsumption_def sampleEnvDC_def stationA_def sampleConnector_def
      sampleChargePoint_def roundTo_example_def)

subsection \<open>Fuse of a connector\<close>

lemma show_nat_digit: "n < 10 \<Longrightarrow> show_nat n = [digit_char n]"
  by (simp add: show_nat.simps)

lemma sampleTransaction_11:
  "sampleTransaction 11 =
     \<lparr> tx_id = 11, chargeBoxID = ''CS1'', tx_connectorId = 1,
       timestamp = 88200000, currentTotalConsumptionWh = 2300, currentInstantAmps = 20,
       currentInstantWattsDC = 0, phasesUsed = None, carID = None \<rparr>"
  by (simp add: sampleTransaction_def show_nat_digit digit_char_def)

text \<open>
  C3 (the code deviates). For a connector on a charge point that cannot charge in
  parallel while more than one of the charge point's connectors is in an active-charging
  status, \<^verbatim>\<open>getConnectorNbrOfPhasesAndAmps\<close> sets the total amperage to 0 and then rejects
  it as a missing amperage: no leaf of capacity 0 is built, the build of the connector
  fuse throws (and with it the whole request).
\<close>

theorem mutual_exclusion_aborts_build:
  assumes "truthyN (conn_chargePointID connector)"
    and "getChargePointFromID env chargingStation (conn_chargePointID connector) = Some chargePoint"
    and "cannotChargeInParallel chargePoint"
    and "1 < countConnectorsCharging env chargingStation (connectorIDs chargePoint)"
  shows "buildChargingStationConnectorFuse env fuseID chargingStation connector =
           Inl (BackendError
             (if getNumberOfConnectedPhases env chargingStation (Some chargePoint)
                   (connectorId connector) = 0
              then ''getConnectorNbrOfPhasesAndAmps: number of phases''
              else ''getConnectorNbrOfPhasesAndAmps: amperage''))"
  using assms
  by (simp add: buildChargingStationConnectorFuse_def getConnectorNbrOfPhasesAndAmps_def Let_def)

theorem mutual_exclusion_aborts_build_witness:
  "cannotChargeInParallel (hd (chargePoints stationM)) \<and>
   countConnectorsCharging sampleEnv stationM (connectorIDs (hd (chargePoints stationM))) = 2 \<and>
   buildChargingStationConnectorFuse sampleEnv 1 stationM (sampleConnector 1 1 51) =
     Inl (BackendError ''getConnectorNbrOfPhasesAndAmps: amperage'')"
proof -
  let ?cp = "(sampleChargePoint 1 [1, 2])\<lparr>cannotChargeInParallel := True\<rparr>"
  have a: "truthyN (conn_chargePointID (sampleConnector 1 1 51))"
    by (simp add: truthyN_def sampleConnector_def)
  have b: "getChargePointFromID sampleEnv stationM (conn_chargePointID (sampleConnector 1 1 51))
             = Some ?cp"
    by (simp add: stationM_def sampleConnector_def sampleChargePoint_def)
  have c: "cannotChargeInParallel ?cp"
    by simp
  have d: "1 < countConnectorsCharging sampleEnv stationM (connectorIDs ?cp)"
    by (simp add: stationM_def sampleConnector_def sampleChargePoint_def connectorIsCharging_def)
  from mutual_exclusion_aborts_build [OF a b c d, of 1]
  show ?thesis
    by (simp add: stationM_def sampleConnector_def sampleChargePoint_def connectorIsCharging_def)
qed

subsection \<open>Sticky limitation\<close>

lemma overrideCarWithVehicle_min:
  "minCurrentPerPhase (overrideCarWithVehicle env cs transaction transactionCar car) =
   minCurrentPerPhase car"
  by (simp add: overrideCarWithVehicle_def Let_def split: option.splits)

lemma carWithVehicle_min:
  "minCurrentPerPhase (carWithVehicle env fuseID cs transaction secs) = MIN_LIMIT_PER_PHASE env"
  by (simp add: carWithVehicle_def overrideCarWithVehicle_min buildSafeCar_def Let_def
      split: option.splits)

lemma buildCar_AC:
  "getChargingStationCurrentType env cs None (tx_connectorId transaction) = Some AC \<Longrightarrow>
   buildCar env setting profiles fuseID cs transaction secs =
   overrideCarWithRuntimeData env setting profiles cs transaction
     (carWithVehicle env fuseID cs transaction secs)"
  by (simp add: buildCar_def carWithVehicle_def Let_def split: option.splits)

text \<open>
  C6, amended. With sticky limitation enabled, on a station of current type AC, for a
  session that reports measured phase usage with a positive number \<open>n\<close> of phases in
  progress, when the vehicle is not judged to be increasing its consumption
  (\<^verbatim>\<open>checkIfCarIsIncreasingConsumption\<close> on the car model as \<^verbatim>\<open>buildCar\<close> has it at that
  point), the car model that \<^verbatim>\<open>buildCar\<close> returns has as maximum current per phase the
  instantaneous current divided by \<open>n\<close> and multiplied by \<open>1 + buffer / 100\<close>, rounded by
  \<^verbatim>\<open>Utils.roundTo\<close> to 3 decimals, when the instantaneous current is positive, and
  \<^verbatim>\<open>StaticLimitAmps.MIN_LIMIT_PER_PHASE\<close> otherwise.
\<close>

theorem sticky_limitation_clamps_AC:
  assumes "stickyLimitation setting"
    and "getChargingStationCurrentType env chargingStation None (tx_connectorId transaction)
           = Some AC"
    and "phasesUsed transaction = Some used"
    and "getNumberOfUsedPhasesInTransactionInProgress env chargingStation transaction = n"
    and "0 < n"
    and "\<not> checkIfCarIsIncreasingConsumption env setting profiles chargingStation transaction AC
             (carWithVehicle env fuseID chargingStation transaction secs) (Some n)"
  shows "maxCurrentPerPhase
           (buildCar env setting profiles fuseID chargingStation transaction secs) =
         (if 0 < currentInstantAmps transaction
          then roundTo env
                 (currentInstantAmps transaction / real_of_int n *
                  (1 + bufferOrZero (limitBufferAC setting) / 100)) 3
          else MIN_LIMIT_PER_PHASE env)"
  using assms
  by (simp add: buildCar_AC overrideCarWithRuntimeData_def carWithVehicle_min Let_def)

lemma sampleCar_11:
  "carWithVehicle sampleEnv 1 stationA (sampleTransaction 11\<lparr>phasesUsed := u\<rparr>) 3600 =
   buildSafeCar sampleEnv 1 stationA (sampleTransaction 11\<lparr>phasesUsed := u\<rparr>) 3600"
  by (simp add: carWithVehicle_def sampleTransaction_def)

lemma sample_not_increasing:
  "\<not> checkIfCarIsIncreasingConsumption sampleEnv stickySetting [previousProfile] stationA
       meteredTransaction AC (carWithVehicle sampleEnv 1 stationA meteredTransaction 3600) (Some 1)"
  unfolding meteredTransaction_def sampleCar_11
  by (simp add: checkIfCarIsIncreasingConsumption_def stickySetting_def sampleSetting_def
      previousProfile_def sampleProfile_def sampleTransaction_11
      getCurrentSapSmartChargingProfileLimit_def moment_diff_minutes_def trunc_div_def
      stationA_def sampleConnector_def buildSafeCar_def Let_def)

lemma sample_not_increasing3:
  "\<not> checkIfCarIsIncreasingConsumption sampleEnv stickySetting [previousProfile] stationA
       threePhaseTransaction AC (carWithVehicle sampleEnv 1 stationA threePhaseTransaction 3600)
       (Some 3)"
  unfolding threePhaseTransaction_def sampleCar_11
  by (simp add: checkIfCarIsIncreasingConsumption_def stickySetting_def sampleSetting_def
      previousProfile_def sampleProfile_def sampleTransaction_11
      getCurrentSapSmartChargingProfileLimit_def moment_diff_minutes_def trunc_div_def
      stationA_def sampleConnector_def buildSafeCar_def Let_def)

lemma sample_not_increasing0:
  "\<not> checkIfCarIsIncreasingConsumption sampleEnv stickySetting [previousProfile] stationA
       idleTransaction AC (carWithVehicle sampleEnv 1 stationA idleTransaction 3600) (Some 1)"
  by (simp add: idleTransaction_def meteredTransaction_def carWithVehicle_def
      checkIfCarIsIncreasingConsumption_def stickySetting_def sampleSetting_def
      previousProfile_def sampleProfile_def sampleTransaction_11
      getCurrentSapSmartChargingProfileLimit_def moment_diff_minutes_def trunc_div_def
      stationA_def sampleConnector_def buildSafeCar_def Let_def)

text \<open>
  The example of the claim: previous limit 32 A per phase, buffer 10 percent, 20 A drawn
  on one phase. The hardware ceiling of the car model is 32 A per phase; the maximum is
  set to 22 A. With nothing drawn it is set to the minimum of 6 A.
\<close>

theorem sticky_limitation_clamps_AC_witness:
  "stickyLimitation stickySetting \<and>
   getChargingStationCurrentType sampleEnv stationA None (tx_connectorId meteredTransaction)
     = Some AC \<and>
   getNumberOfUsedPhasesInTransactionInProgress sampleEnv stationA meteredTransaction = 1 \<and>
   \<not> checkIfCarIsIncreasingConsumption sampleEnv stickySetting [previousProfile] stationA
       meteredTransaction AC (carWithVehicle sampleEnv 1 stationA meteredTransaction 3600)
       (Some 1) \<and>
   maxCurrentPerPhase (carWithVehicle sampleEnv 1 stationA meteredTransaction 3600) = 32 \<and>
   maxCurrentPerPhase
     (buildCar sampleEnv stickySetting [previousProfile] 1 stationA meteredTransaction 3600) = 22 \<and>
   \<not> checkIfCarIsIncreasingConsumption sampleEnv stickySetting [previousProfile] stationA
       idleTransaction AC (carWithVehicle sampleEnv 1 stationA idleTransaction 3600) (Some 1) \<and>
   maxCurrentPerPhase
     (buildCar sampleEnv stickySetting [previousProfile] 1 stationA idleTransaction 3600) = 6"
  using sticky_limitation_clamps_AC [where setting = stickySetting and env = sampleEnv
      and chargingStation = stationA and transaction = meteredTransaction
      and used = "\<lparr> csPhase1 = True, csPhase2 = False, csPhase3 = False \<rparr>" and n = 1
      and profiles = "[previousProfile]" and fuseID = 1 and secs = 3600,
      OF _ _ _ _ _ sample_not_increasing]
    sticky_limitation_clamps_AC [where setting = stickySetting and env = sampleEnv
      and chargingStation = stationA and transaction = idleTransaction
      and used = "\<lparr> csPhase1 = True, csPhase2 = False, csPhase3 = False \<rparr>" and n = 1
      and profiles = "[previousProfile]" and fuseID = 1 and secs = 3600,
      OF _ _ _ _ _ sample_not_increasing0]
    sample_not_increasing sample_not_increasing0
  by (simp add: stickySetting_def sampleSetting_def idleTransaction_def meteredTransaction_def
      sampleTransaction_11 carWithVehicle_def bufferOrZero_def roundTo_example_def
      buildSafeCar_def Let_def moment_diff_seconds_def trunc_div_def)

lemma sample_buildCar3:
  "maxCurrentPerPhase
     (buildCar sampleEnv stickySetting [previousProfile] 1 stationA threePhaseTransaction 3600)
   = 7333 / 1000"
  using sample_not_increasing3
  by (simp add: buildCar_AC overrideCarWithRuntimeData_def threePhaseTransaction_def
      sampleTransaction_11 stickySetting_def sampleSetting_def bufferOrZero_def
      roundTo_example_def Let_def)

text \<open>
  C6 (as stated, the claim fails): the maximum is the product after rounding, not the
  product. With 20 A drawn on three phases and a buffer of 10 percent the product is
  \<open>22 / 3\<close>; the car model gets 7.333.
\<close>

theorem sticky_limit_is_rounded:
  "stickyLimitation stickySetting \<and>
   getChargingStationCurrentType sampleEnv stationA None (tx_connectorId threePhaseTransaction)
     = Some AC \<and>
   phasesUsed threePhaseTransaction \<noteq> None \<and>
   getNumberOfUsedPhasesInTransactionInProgress sampleEnv stationA threePhaseTransaction = 3 \<and>
   \<not> checkIfCarIsIncreasingConsumption sampleEnv stickySetting [previousProfile] stationA
       threePhaseTransaction AC (carWithVehicle sampleEnv 1 stationA threePhaseTransaction 3600)
       (Some 3) \<and>
   0 < currentInstantAmps threePhaseTransaction \<and>
   maxCurrentPerPhase
     (buildCar sampleEnv stickySetting [previousProfile] 1 stationA threePhaseTransaction 3600)
     = 7333 / 1000 \<and>
   currentInstantAmps threePhaseTransaction /
     real_of_int (getNumberOfUsedPhasesInTransactionInProgress sampleEnv stationA
        threePhaseTransaction) *
     (1 + bufferOrZero (limitBufferAC stickySetting) / 100) = 22 / 3 \<and>
   maxCurrentPerPhase
     (buildCar sampleEnv stickySetting [previousProfile] 1 stationA threePhaseTransaction 3600)
     \<noteq> currentInstantAmps threePhaseTransaction /
         real_of_int (getNumberOfUsedPhasesInTransactionInProgress sampleEnv stationA
            threePhaseTransaction) *
         (1 + bufferOrZero (limitBufferAC stickySetting) / 100)"
  using sample_not_increasing3 sample_buildCar3
  by (simp add: threePhaseTransaction_def sampleTransaction_11 stickySetting_def
      sampleSetting_def bufferOrZero_def)

subsection \<open>A cycle without cars\<close>

lemma adjust_stationX:
  "adjustSiteLimitation sampleEnv (sampleSite [stationX]) None =
     Inr ((sampleSite [])\<lparr>maximumPower := 38640\<rparr>)"
  by (simp add: adjustSiteLimitation_def sampleSite_def stationX_def nth_opt_def
      isExcludedStation_def splice1_def Let_def)

lemma request_stationX:
  "buildOptimizerRequest sampleEnv sampleSetting [] (sampleSite [stationX]) 3600 None =
     Inr emptyRequest"
  by (simp add: buildOptimizerRequest_def adjust_stationX sampleSetting_def Let_def
      emptyRequest_def initialBuildState_def, simp add: sampleSite_def)

lemma sample_url: "buildOptimizerUrl sampleEnv sampleSetting = Inr ''https://u:p@optimizer.example''"
  by (simp add: buildOptimizerUrl_def sampleSetting_def)

lemma sample_seconds: "moment_diff_seconds 90000000 86400000 = 3600"
  by (simp add: moment_diff_seconds_def trunc_div_def)

lemma sample_stations_read:
  "(sampleSite [])\<lparr>chargingStations := [stationX]\<rparr> = sampleSite [stationX]"
  by (simp add: sampleSite_def)

text \<open>
  C7 (as stated, the claim fails): with zero cars in the request and a complete
  configuration, \<^verbatim>\<open>buildChargingProfiles\<close> ends in the bare \<^verbatim>\<open>return;\<close>, so it
  returns \<^verbatim>\<open>undefined\<close> and not an empty list.
\<close>

theorem zero_cars_returns_undefined:
  "buildOptimizerRequest sampleEnv sampleSetting [] (sampleSite [stationX]) 3600 None
     = Inr emptyRequest \<and>
   cars emptyRequest = [] \<and>
   fst (buildChargingProfiles sampleEnv sampleSetting [] (sampleSite []) None) \<noteq> Inr (Some [])"
  by (simp add: request_stationX buildChargingProfiles_def sample_seconds sample_stations_read
      sample_url Let_def, simp add: emptyRequest_def)

text \<open>
  C7, amended. When the request that has been built contains zero cars,
  \<^verbatim>\<open>buildChargingProfiles\<close> makes no HTTP call to the optimizer; it returns
  \<^verbatim>\<open>undefined\<close> when the optimizer's URL, user and password are configured, and throws
  the configuration error of \<^verbatim>\<open>buildOptimizerUrl\<close> otherwise.
\<close>

theorem zero_cars_no_call:
  assumes "buildOptimizerRequest env setting profiles
             (siteArea\<lparr>chargingStations := getChargingStations env (sa_id siteArea)\<rparr>)
             (moment_diff_seconds (now env) (startOfDay env)) excluded = Inr request"
    and "cars request = []"
  shows "buildChargingProfiles env setting profiles siteArea excluded =
           ((case buildOptimizerUrl env setting of Inl e \<Rightarrow> Inl e | Inr url \<Rightarrow> Inr None), [])"
  using assms
  by (simp add: buildChargingProfiles_def Let_def split: sum.splits)

theorem zero_cars_no_call_witness:
  "buildOptimizerRequest sampleEnv sampleSetting []
     ((sampleSite [])\<lparr>chargingStations := getChargingStations sampleEnv (sa_id (sampleSite []))\<rparr>)
     (moment_diff_seconds (now sampleEnv) (startOfDay sampleEnv)) None = Inr emptyRequest \<and>
   cars emptyRequest = [] \<and>
   buildChargingProfiles sampleEnv sampleSetting [] (sampleSite []) None = (Inr None, [])"
proof -
  have a: "buildOptimizerRequest sampleEnv sampleSetting []
     ((sampleSite [])\<lparr>chargingStations := getChargingStations sampleEnv (sa_id (sampleSite []))\<rparr>)
     (moment_diff_seconds (now sampleEnv) (startOfDay sampleEnv)) None = Inr emptyRequest"
    by (simp add: sample_seconds sample_stations_read request_stationX)
  have b: "cars emptyRequest = []"
    by (simp add: emptyRequest_def)
  from zero_cars_no_call [OF a b] a b show ?thesis
    by (simp add: sample_url)
qed

subsection \<open>Building the request\<close>

lemma fuse_id_connector_fuse:
  "buildChargingStationConnectorFuse env fuseID cs connector = Inr f \<Longrightarrow> fuse_id f = fuseID"
  by (auto simp: buildChargingStationConnectorFuse_def Let_def split: sum.splits)

lemma car_id_runtime [simp]:
  "car_id (overrideCarWithRuntimeData env setting profiles cs t car) = car_id car"
  by (simp add: overrideCarWithRuntimeData_def Let_def split: option.splits)

lemma car_id_vehicle [simp]:
  "car_id (overrideCarWithVehicle env cs t vehicle car) = car_id car"
  by (simp add: overrideCarWithVehicle_def Let_def split: option.splits)

lemma car_id_safe [simp]:
  "car_id (buildSafeCar env fuseID cs t secs) = fuseID"
  by (simp add: buildSafeCar_def Let_def)

lemma car_id_buildCar [simp]:
  "car_id (buildCar env setting profiles fuseID cs t secs) = fuseID"
  by (simp add: buildCar_def Let_def split: option.splits)

lemma connectorsBuildLoop_Inr:
  assumes "connectorsBuildLoop env setting profiles secs cs conns st = Inr st'"
  shows "\<exists>leaves newCars.
     chargingStationConnectorsFuse st' = chargingStationConnectorsFuse st @ leaves \<and>
     map fuse_id leaves = [b_fuseID st ..< b_fuseID st + length conns] \<and>
     b_cars st' = b_cars st @ newCars \<and>
     map car_id newCars = map fuse_id leaves \<and>
     b_carConnectorAssignments st' =
       b_carConnectorAssignments st @
       map (\<lambda>i. \<lparr> carID_assigned = i, chargingStationID_assigned = i \<rparr>) (map fuse_id leaves) \<and>
     sumConnectorAmperagePhase1 st' = sumConnectorAmperagePhase1 st + sum_list (map fusePhase1 leaves) \<and>
     sumConnectorAmperagePhase2 st' = sumConnectorAmperagePhase2 st + sum_list (map fusePhase2 leaves) \<and>
     sumConnectorAmperagePhase3 st' = sumConnectorAmperagePhase3 st + sum_list (map fusePhase3 leaves) \<and>
     b_fuseID st' = b_fuseID st + length conns \<and>
     b_rootChildren st' = b_rootChildren st"
  using assms
proof (induction conns arbitrary: st)
  case Nil
  then show ?case by simp
next
  case (Cons connector rest)
  from Cons.prems obtain transaction f where
    f: "buildChargingStationConnectorFuse env (b_fuseID st) cs connector = Inr f" and
    tx: "getTransactionFromChargingConnector env connector = Inr transaction"
    by (auto split: sum.splits)
  define car where "car = buildCar env setting profiles (b_fuseID st) cs transaction secs"
  define st1 where "st1 = st\<lparr> chargingStationConnectorsFuse := chargingStationConnectorsFuse st @ [f],
      sumConnectorAmperagePhase1 := sumConnectorAmperagePhase1 st + fusePhase1 f,
      sumConnectorAmperagePhase2 := sumConnectorAmperagePhase2 st + fusePhase2 f,
      sumConnectorAmperagePhase3 := sumConnectorAmperagePhase3 st + fusePhase3 f,
      b_cars := b_cars st @ [car],
      b_carConnectorAssignments := b_carConnectorAssignments st @
         [\<lparr> carID_assigned = b_fuseID st, chargingStationID_assigned = b_fuseID st \<rparr>],
      b_fuseID := b_fuseID st + 1 \<rparr>"
  from Cons.prems f tx have rec: "connectorsBuildLoop env setting profiles secs cs rest st1 = Inr st'"
    by (simp add: st1_def car_def Let_def)
  from Cons.IH [OF rec] obtain leaves newCars where
    h1: "chargingStationConnectorsFuse st' = chargingStationConnectorsFuse st1 @ leaves" and
    h2: "map fuse_id leaves = [b_fuseID st1 ..< b_fuseID st1 + length rest]" and
    h3: "b_cars st' = b_cars st1 @ newCars" and
    h4: "map car_id newCars = map fuse_id leaves" and
    h5: "b_carConnectorAssignments st' = b_carConnectorAssignments st1 @
       map (\<lambda>i. \<lparr> carID_assigned = i, chargingStationID_assigned = i \<rparr>) (map fuse_id leaves)" and
    h6: "sumConnectorAmperagePhase1 st' = sumConnectorAmperagePhase1 st1 + sum_list (map fusePhase1 leaves)" and
    h7: "sumConnectorAmperagePhase2 st' = sumConnectorAmperagePhase2 st1 + sum_list (map fusePhase2 leaves)" and
    h8: "sumConnectorAmperagePhase3 st' = sumConnectorAmperagePhase3 st1 + sum_list (map fusePhase3 leaves)" and
    h9: "b_fuseID st' = b_fuseID st1 + length rest" and
    h10: "b_rootChildren st' = b_rootChildren st1"
    by blast
  have fid: "fuse_id f = b_fuseID st"
    using fuse_id_connector_fuse [OF f] .
  have ids: "[b_fuseID st ..< b_fuseID st + length (connector # rest)] =
             b_fuseID st # [b_fuseID st1 ..< b_fuseID st1 + length rest]"
    using upt_conv_Cons [of "b_fuseID st" "b_fuseID st + Suc (length rest)"] by (simp add: st1_def)
  show ?case
    apply (rule exI [of _ "f # leaves"], rule exI [of _ "car # newCars"])
    using h1 h2 h3 h4 h5 h6 h7 h8 h9 h10 fid ids
    by (simp add: st1_def car_def)
qed


lemma upt_join: "a \<le> b \<Longrightarrow> b \<le> c \<Longrightarrow> [a..<b] @ [b..<c] = [a..<c]"
  using upt_add_eq_append [of a b "c - b"] by simp

lemma stationsBuildLoop_Inr:
  assumes "stationsBuildLoop env setting profiles secs stations st = Inr st'"
  shows "\<exists>newS newCars.
     b_rootChildren st' = b_rootChildren st @ newS \<and>
     list_all conserves newS \<and>
     b_cars st' = b_cars st @ newCars \<and>
     map car_id newCars = map fuse_id (concat (map children newS)) \<and>
     b_carConnectorAssignments st' =
       b_carConnectorAssignments st @
       map (\<lambda>i. \<lparr> carID_assigned = i, chargingStationID_assigned = i \<rparr>)
         (map fuse_id (concat (map children newS))) \<and>
     b_fuseID st \<le> b_fuseID st' \<and>
     ((\<forall>cs\<in>set stations. connectors cs \<noteq> []) \<longrightarrow>
        concat (map stationConstructionIds newS) = [b_fuseID st ..< b_fuseID st'])"
  using assms
proof (induction stations arbitrary: st)
  case Nil
  then show ?case
    by (intro exI [of _ "[]"]) simp
next
  case (Cons cs rest)
  define st0 where "st0 = st\<lparr> sumConnectorAmperagePhase1 := 0, sumConnectorAmperagePhase2 := 0,
      sumConnectorAmperagePhase3 := 0, chargingStationConnectorsFuse := [] \<rparr>"
  from Cons.prems obtain st1 where
    inner: "connectorsBuildLoop env setting profiles secs cs (connectors cs) st0 = Inr st1"
    by (auto simp: st0_def split: sum.splits)
  define sf where "sf = buildChargingStationFuse (b_fuseID st1) (sumConnectorAmperagePhase1 st1)
      (sumConnectorAmperagePhase2 st1) (sumConnectorAmperagePhase3 st1)
      (chargingStationConnectorsFuse st1)"
  define st2 where "st2 = st1\<lparr> b_fuseID := b_fuseID st1 + 1 \<rparr>"
  define st3 where "st3 = (if length (children sf) > 0
      then st2\<lparr> b_rootChildren := b_rootChildren st2 @ [sf] \<rparr> else st2)"
  have rec: "stationsBuildLoop env setting profiles secs rest st3 = Inr st'"
    using Cons.prems inner unfolding st0_def sf_def st2_def st3_def
    by (auto simp: Let_def split: if_splits)
  have "\<exists>leaves newCars1.
     chargingStationConnectorsFuse st1 = leaves \<and>
     map fuse_id leaves = [b_fuseID st ..< b_fuseID st + length (connectors cs)] \<and>
     b_cars st1 = b_cars st @ newCars1 \<and>
     map car_id newCars1 = map fuse_id leaves \<and>
     b_carConnectorAssignments st1 =
       b_carConnectorAssignments st @
       map (\<lambda>i. \<lparr> carID_assigned = i, chargingStationID_assigned = i \<rparr>) (map fuse_id leaves) \<and>
     sumConnectorAmperagePhase1 st1 = sum_list (map fusePhase1 leaves) \<and>
     sumConnectorAmperagePhase2 st1 = sum_list (map fusePhase2 leaves) \<and>
     sumConnectorAmperagePhase3 st1 = sum_list (map fusePhase3 leaves) \<and>
     b_fuseID st1 = b_fuseID st + length (connectors cs) \<and>
     b_rootChildren st1 = b_rootChildren st"
    using connectorsBuildLoop_Inr [OF inner] by (auto simp: st0_def)
  then obtain leaves newCars1 where
    c1: "chargingStationConnectorsFuse st1 = leaves" and
    c2: "map fuse_id leaves = [b_fuseID st ..< b_fuseID st + length (connectors cs)]" and
    c3: "b_cars st1 = b_cars st @ newCars1" and
    c4: "map car_id newCars1 = map fuse_id leaves" and
    c5: "b_carConnectorAssignments st1 = b_carConnectorAssignments st @
       map (\<lambda>i. \<lparr> carID_assigned = i, chargingStationID_assigned = i \<rparr>) (map fuse_id leaves)" and
    c6: "sumConnectorAmperagePhase1 st1 = sum_list (map fusePhase1 leaves)" and
    c7: "sumConnectorAmperagePhase2 st1 = sum_list (map fusePhase2 leaves)" and
    c8: "sumConnectorAmperagePhase3 st1 = sum_list (map fusePhase3 leaves)" and
    c9: "b_fuseID st1 = b_fuseID st + length (connectors cs)" and
    c10: "b_rootChildren st1 = b_rootChildren st"
    by blast
  have len: "length leaves = length (connectors cs)"
    using arg_cong [OF c2, of length] by simp
  have sf_children: "children sf = leaves"
    by (simp add: sf_def buildChargingStationFuse_def c1)
  have sf_cons: "conserves sf"
    by (simp add: conserves_def sf_def buildChargingStationFuse_def c1 c6 c7 c8)
  have fid3: "b_fuseID st3 = b_fuseID st + length (connectors cs) + 1"
    by (simp add: st3_def st2_def c9)
  have sf_id: "fuse_id sf = b_fuseID st + length (connectors cs)"
    by (simp add: sf_def buildChargingStationFuse_def c9)
  have "stationConstructionIds sf =
          [b_fuseID st ..< b_fuseID st + length (connectors cs)] @
          [b_fuseID st + length (connectors cs)]"
    unfolding stationConstructionIds_def sf_children c2 sf_id ..
  also have "\<dots> = [b_fuseID st ..< Suc (b_fuseID st + length (connectors cs))]"
    by simp
  finally have sf_ids: "stationConstructionIds sf = [b_fuseID st ..< b_fuseID st3]"
    by (simp add: fid3)
  from Cons.IH [OF rec] obtain newS newCars where
    r1: "b_rootChildren st' = b_rootChildren st3 @ newS" and
    r2: "list_all conserves newS" and
    r3: "b_cars st' = b_cars st3 @ newCars" and
    r4: "map car_id newCars = map fuse_id (concat (map children newS))" and
    r5: "b_carConnectorAssignments st' = b_carConnectorAssignments st3 @
       map (\<lambda>i. \<lparr> carID_assigned = i, chargingStationID_assigned = i \<rparr>)
         (map fuse_id (concat (map children newS)))" and
    r6: "b_fuseID st3 \<le> b_fuseID st'" and
    r7: "(\<forall>cs\<in>set rest. connectors cs \<noteq> []) \<longrightarrow>
        concat (map stationConstructionIds newS) = [b_fuseID st3 ..< b_fuseID st']"
    by blast
  have cars3: "b_cars st3 = b_cars st @ newCars1"
    by (simp add: st3_def st2_def c3)
  have asg3: "b_carConnectorAssignments st3 = b_carConnectorAssignments st @
       map (\<lambda>i. \<lparr> carID_assigned = i, chargingStationID_assigned = i \<rparr>) (map fuse_id leaves)"
    by (simp add: st3_def st2_def c5)
  show ?case
  proof (cases "leaves = []")
    case True
    have root3: "b_rootChildren st3 = b_rootChildren st"
      using True by (simp add: st3_def st2_def c10 sf_children)
    have nocars: "newCars1 = []"
      using c4 True by simp
    have noconn: "connectors cs = []"
      using len True by simp
    show ?thesis
      apply (rule exI [of _ newS], rule exI [of _ newCars])
      using r1 r2 r3 r4 r5 r6 root3 nocars cars3 asg3 True fid3 noconn
      by simp
  next
    case False
    have root3: "b_rootChildren st3 = b_rootChildren st @ [sf]"
      using False by (simp add: st3_def st2_def c10 sf_children)
    have ids: "concat (map stationConstructionIds (sf # newS)) = [b_fuseID st ..< b_fuseID st']"
      if "\<forall>cs\<in>set (cs # rest). connectors cs \<noteq> []"
    proof -
      from that r7 have "concat (map stationConstructionIds newS) = [b_fuseID st3 ..< b_fuseID st']"
        by simp
      moreover have "b_fuseID st \<le> b_fuseID st3"
        using fid3 by simp
      ultimately show ?thesis
        using sf_ids r6 by (simp add: upt_join)
    qed
    show ?thesis
      apply (rule exI [of _ "sf # newS"], rule exI [of _ "newCars1 @ newCars"])
      using r1 r2 r3 r4 r5 r6 root3 cars3 asg3 fid3 sf_cons sf_children c4 ids
      by simp
  qed
qed



lemma nth_opt_Some: "nth_opt xs i = Some x \<longleftrightarrow> i < length xs \<and> xs ! i = x"
  by (auto simp: nth_opt_def)

lemma nth_opt_None: "nth_opt xs i = None \<longleftrightarrow> length xs \<le> i"
  by (auto simp: nth_opt_def)

lemma drop_splice1: "i < length xs \<Longrightarrow> drop i (splice1 i xs) = drop (Suc i) xs"
  by (simp add: splice1_def)

lemma take_splice1: "i < length xs \<Longrightarrow> take i (splice1 i xs) = take i xs"
  by (simp add: splice1_def)

lemma length_splice1: "i < length xs \<Longrightarrow> length (splice1 i xs) = length xs - 1"
  by (simp add: splice1_def)

lemma drop_update_same: "i < length xs \<Longrightarrow> drop i (xs[i := y]) = y # drop (Suc i) xs"
  by (simp add: upd_conv_take_nth_drop)

lemma stationsLoop_nonempty:
  "stationsLoop env i excluded stations amps = Inr (stations', amps') \<Longrightarrow>
   \<forall>cs\<in>set (drop i stations). connectors cs \<noteq> [] \<Longrightarrow>
   \<forall>cs\<in>set stations'. connectors cs \<noteq> []"
proof (induction i arbitrary: stations amps)
  case 0
  then show ?case by simp
next
  case (Suc i)
  from Suc.prems(1) obtain cs where cs: "nth_opt stations i = Some cs"
    by (auto split: option.splits)
  then have i: "i < length stations"
    by (simp add: nth_opt_Some)
  show ?case
  proof (cases "isExcludedStation excluded cs")
    case True
    with Suc.prems(1) cs have
      "stationsLoop env i excluded (splice1 i stations)
         (amps - cs_maximumPower cs / getChargingStationVoltage env cs) = Inr (stations', amps')"
      by (simp add: Let_def)
    moreover have "\<forall>cs\<in>set (drop i (splice1 i stations)). connectors cs \<noteq> []"
      using Suc.prems(2) i by (simp add: drop_splice1)
    ultimately show ?thesis
      by (rule Suc.IH)
  next
    case False
    with Suc.prems(1) cs obtain cs' processed amps1 where
      inner: "connectorsLoop env (length (connectors cs)) cs [] amps = Inr (cs', processed, amps1)"
      by (auto simp: Let_def split: sum.splits)
    show ?thesis
    proof (cases "length (connectors cs') = 0")
      case True
      with Suc.prems(1) cs False inner have
        "stationsLoop env i excluded (splice1 i stations) amps1 = Inr (stations', amps')"
        by (simp add: Let_def)
      moreover have "\<forall>cs\<in>set (drop i (splice1 i stations)). connectors cs \<noteq> []"
        using Suc.prems(2) i by (simp add: drop_splice1)
      ultimately show ?thesis
        by (rule Suc.IH)
    next
      case nonempty: False
      with Suc.prems(1) cs False inner have
        "stationsLoop env i excluded (stations[i := cs']) amps1 = Inr (stations', amps')"
        by (simp add: Let_def)
      moreover have "\<forall>cs\<in>set (drop i (stations[i := cs'])). connectors cs \<noteq> []"
        using Suc.prems(2) i nonempty by (simp add: drop_update_same)
      ultimately show ?thesis
        by (rule Suc.IH)
    qed
  qed
qed

lemma adjustSiteLimitation_nonempty:
  assumes "adjustSiteLimitation env siteArea excluded = Inr siteArea'"
  shows "\<forall>cs\<in>set (chargingStations siteArea'). connectors cs \<noteq> []"
proof -
  from assms obtain stations amps where
    loop: "stationsLoop env (length (chargingStations siteArea)) excluded
             (chargingStations siteArea) (maximumPower siteArea / voltage siteArea)
           = Inr (stations, amps)"
    and res: "chargingStations siteArea' = stations"
    by (auto simp: adjustSiteLimitation_def Let_def split: sum.splits if_splits)
  from stationsLoop_nonempty [OF loop] res show ?thesis
    by simp
qed

text \<open>What a successful build of the request consists of.\<close>

lemma buildOptimizerRequest_Inr:
  assumes "buildOptimizerRequest env setting profiles0 siteArea0 secs excluded = Inr request"
  obtains siteArea profiles st where
    "adjustSiteLimitation env siteArea0 excluded = Inr siteArea"
    "stationsBuildLoop env setting profiles secs (chargingStations siteArea) initialBuildState
       = Inr st"
    "fuse_id (rootFuse request) = 0"
    "children (rootFuse request) = b_rootChildren st"
    "cars request = b_cars st"
    "carAssignments request = b_carConnectorAssignments st"
proof -
  define profiles where "profiles =
    (if stickyLimitation setting
     then getChargingProfiles env (map cs_id (chargingStations siteArea0))
     else profiles0)"
  from assms obtain siteArea where
    adj: "adjustSiteLimitation env siteArea0 excluded = Inr siteArea"
    by (auto simp: buildOptimizerRequest_def Let_def split: if_splits sum.splits)
  from assms adj obtain st where
    loop: "stationsBuildLoop env setting profiles secs (chargingStations siteArea)
             initialBuildState = Inr st"
    unfolding profiles_def
    by (auto simp: buildOptimizerRequest_def Let_def split: if_splits sum.splits)
  from assms adj loop have
    "fuse_id (rootFuse request) = 0 \<and>
     children (rootFuse request) = b_rootChildren st \<and>
     cars request = b_cars st \<and>
     carAssignments request = b_carConnectorAssignments st"
    unfolding profiles_def
    by (auto simp: buildOptimizerRequest_def Let_def split: if_splits)
  with adj loop that show thesis
    by blast
qed


lemma sampleTransaction_val:
  "sampleTransaction 12 = \<lparr> tx_id = 12, chargeBoxID = ''CS1'', tx_connectorId = 2,
       timestamp = 88200000, currentTotalConsumptionWh = 2300, currentInstantAmps = 20,
       currentInstantWattsDC = 0, phasesUsed = None, carID = None \<rparr>"
  "sampleTransaction 21 = \<lparr> tx_id = 21, chargeBoxID = ''CS2'', tx_connectorId = 1,
       timestamp = 88200000, currentTotalConsumptionWh = 2300, currentInstantAmps = 20,
       currentInstantWattsDC = 0, phasesUsed = None, carID = None \<rparr>"
  by (simp_all add: sampleTransaction_def show_nat_digit digit_char_def)

lemma sampleSite_sel [simp]:
  "chargingStations (sampleSite xs) = xs" "maximumPower (sampleSite xs) = 46000"
  "voltage (sampleSite xs) = 230" "numberOfPhases (sampleSite xs) = 3"
  "sa_id (sampleSite xs) = ''SA''"
  by (simp_all add: sampleSite_def)

lemma adjust_stations_AB:
  "adjustSiteLimitation sampleEnv (sampleSite [stationA, stationB]) None
     = Inr (sampleSite [stationA, stationB])"
  by (simp add: adjustSiteLimitation_def sampleSite_def stationA_def stationB_def nth_opt_def
      isExcludedStation_def splice1_def Let_def sampleConnector_def sampleChargePoint_def
      truthyN_def numeral_2_eq_2)

lemma build_stations_AB:
  "stationsBuildLoop sampleEnv sampleSetting [] 3600 [stationA, stationB] initialBuildState =
     Inr \<lparr> b_cars = cars sampleRequest,
           b_carConnectorAssignments = carAssignments sampleRequest,
           b_fuseID = 6,
           b_rootChildren = children (rootFuse sampleRequest),
           sumConnectorAmperagePhase1 = 32 / 3, sumConnectorAmperagePhase2 = 32 / 3,
           sumConnectorAmperagePhase3 = 32 / 3,
           chargingStationConnectorsFuse = [sampleLeaf 4] \<rparr>"
  by (simp add: initialBuildState_def sampleRequest_def sampleLeaf_def sampleStationFuse_def
      sampleCar_def sampleSetting_def stationA_def stationB_def sampleConnector_def
      sampleChargePoint_def getTransactionFromChargingConnector_def
      buildChargingStationConnectorFuse_def getConnectorNbrOfPhasesAndAmps_def truthyN_def
      buildChargingStationFuse_def buildCar_def buildSafeCar_def overrideCarWithRuntimeData_def
      sampleTransaction_11 sampleTransaction_val moment_diff_seconds_def trunc_div_def
      show_nat_digit digit_char_def Let_def)

lemma sample_request:
  "buildOptimizerRequest sampleEnv sampleSetting [] (sampleSite [stationA, stationB]) 3600 None
     = Inr sampleRequest"
proof -
  have sticky: "stickyLimitation sampleSetting = False"
    by (simp add: sampleSetting_def)
  show ?thesis
    by (simp add: buildOptimizerRequest_def adjust_stations_AB sticky build_stations_AB Let_def
        del: stationsBuildLoop.simps, simp add: sampleRequest_def)
qed

text \<open>
  C1. In every request that \<^verbatim>\<open>buildOptimizerRequest\<close> builds, each station fuse of the
  fuse tree has each of its three per-phase capacities equal to the sum of the
  corresponding capacities of the connector leaves that are its children.
\<close>

theorem station_fuse_conserves_capacity:
  assumes "buildOptimizerRequest env setting profiles siteArea secs excluded = Inr request"
    and "stationFuse \<in> set (children (rootFuse request))"
  shows "fusePhase1 stationFuse = sum_list (map fusePhase1 (children stationFuse)) \<and>
         fusePhase2 stationFuse = sum_list (map fusePhase2 (children stationFuse)) \<and>
         fusePhase3 stationFuse = sum_list (map fusePhase3 (children stationFuse))"
proof -
  from assms(1) obtain sa ps st where
    adj: "adjustSiteLimitation env siteArea excluded = Inr sa" and
    loop: "stationsBuildLoop env setting ps secs (chargingStations sa) initialBuildState = Inr st"
    and kids: "children (rootFuse request) = b_rootChildren st"
    by (rule buildOptimizerRequest_Inr)
  from stationsBuildLoop_Inr [OF loop] have "list_all conserves (b_rootChildren st)"
    by (auto simp: initialBuildState_def)
  with assms(2) kids have "conserves stationFuse"
    by (simp add: list_all_iff)
  then show ?thesis
    by (simp add: conserves_def)
qed


theorem station_fuse_conserves_capacity_witness:
  "buildOptimizerRequest sampleEnv sampleSetting [] (sampleSite [stationA, stationB]) 3600 None
     = Inr sampleRequest \<and>
   sampleStationFuse 3 (64 / 3) [sampleLeaf 1, sampleLeaf 2]
     \<in> set (children (rootFuse sampleRequest)) \<and>
   fusePhase1 (sampleStationFuse 3 (64 / 3) [sampleLeaf 1, sampleLeaf 2]) =
     sum_list (map fusePhase1 [sampleLeaf 1, sampleLeaf 2]) \<and>
   sum_list (map fusePhase1 [sampleLeaf 1, sampleLeaf 2]) = 64 / 3"
proof -
  have mem: "sampleStationFuse 3 (64 / 3) [sampleLeaf 1, sampleLeaf 2]
               \<in> set (children (rootFuse sampleRequest))"
    by (simp add: sampleRequest_def)
  from station_fuse_conserves_capacity [OF sample_request mem] sample_request mem
  show ?thesis
    by (simp add: sampleStationFuse_def sampleLeaf_def)
qed

text \<open>
  C8. In every request that \<^verbatim>\<open>buildOptimizerRequest\<close> builds, the identifiers of the
  fuses, read in the order of construction (root, then per station its connector leaves
  and the station fuse), are the numbers 0, 1, 2, ... of one counter: the root has 0,
  the identifiers are pairwise distinct and strictly increasing.
\<close>

theorem fuse_ids_sequential:
  assumes "buildOptimizerRequest env setting profiles siteArea secs excluded = Inr request"
  shows "fuse_id (rootFuse request) = 0 \<and>
         constructionIds request = [0 ..< length (constructionIds request)] \<and>
         distinct (constructionIds request) \<and>
         sorted_wrt (<) (constructionIds request)"
proof -
  from assms(1) obtain sa ps st where
    adj: "adjustSiteLimitation env siteArea excluded = Inr sa" and
    loop: "stationsBuildLoop env setting ps secs (chargingStations sa) initialBuildState = Inr st"
    and root: "fuse_id (rootFuse request) = 0"
    and kids: "children (rootFuse request) = b_rootChildren st"
    by (rule buildOptimizerRequest_Inr)
  from stationsBuildLoop_Inr [OF loop] adjustSiteLimitation_nonempty [OF adj]
  have ids: "concat (map stationConstructionIds (b_rootChildren st)) = [1 ..< b_fuseID st]"
    and le: "1 \<le> b_fuseID st"
    by (auto simp: initialBuildState_def)
  have "constructionIds request = 0 # [1 ..< b_fuseID st]"
    by (simp add: constructionIds_def root kids ids)
  also have "\<dots> = [0 ..< b_fuseID st]"
    using le by (simp add: upt_conv_Cons)
  finally have all: "constructionIds request = [0 ..< b_fuseID st]" .
  then have "length (constructionIds request) = b_fuseID st"
    by simp
  with all have seq: "constructionIds request = [0 ..< length (constructionIds request)]"
    by simp
  have "distinct [0 ..< b_fuseID st]" "sorted_wrt (<) [0 ..< b_fuseID st]"
    by simp_all
  with all have "distinct (constructionIds request)" "sorted_wrt (<) (constructionIds request)"
    by simp_all
  with root seq show ?thesis
    by blast
qed


theorem fuse_ids_sequential_witness:
  "buildOptimizerRequest sampleEnv sampleSetting [] (sampleSite [stationA, stationB]) 3600 None
     = Inr sampleRequest \<and>
   constructionIds sampleRequest = [0, 1, 2, 3, 4, 5]"
  using fuse_ids_sequential [OF sample_request] sample_request
  by (simp add: constructionIds_def stationConstructionIds_def sampleRequest_def
      sampleStationFuse_def sampleLeaf_def)

text \<open>
  C9. In every request that \<^verbatim>\<open>buildOptimizerRequest\<close> builds, there are as many cars as
  car assignments and as connector leaves; the assignment at an index pairs the same
  number as car and as charging station, and that number is the identifier of the car at
  that index and of the connector leaf at that index.
\<close>

theorem cars_correlate_with_leaves:
  assumes "buildOptimizerRequest env setting profiles siteArea secs excluded = Inr request"
  shows "length (cars request) = length (carAssignments request) \<and>
         length (cars request) = length (leafFuses request) \<and>
         (\<forall>i < length (cars request).
            carID_assigned (carAssignments request ! i) =
              chargingStationID_assigned (carAssignments request ! i) \<and>
            carID_assigned (carAssignments request ! i) = car_id (cars request ! i) \<and>
            carID_assigned (carAssignments request ! i) = fuse_id (leafFuses request ! i))"
proof -
  from assms(1) obtain sa ps st where
    adj: "adjustSiteLimitation env siteArea excluded = Inr sa" and
    loop: "stationsBuildLoop env setting ps secs (chargingStations sa) initialBuildState = Inr st"
    and kids: "children (rootFuse request) = b_rootChildren st"
    and cs: "cars request = b_cars st"
    and asg: "carAssignments request = b_carConnectorAssignments st"
    by (rule buildOptimizerRequest_Inr)
  let ?ids = "map fuse_id (leafFuses request)"
  from stationsBuildLoop_Inr [OF loop] have
    c: "map car_id (cars request) = ?ids" and
    a: "carAssignments request =
          map (\<lambda>i. \<lparr> carID_assigned = i, chargingStationID_assigned = i \<rparr>) ?ids"
    by (auto simp: leafFuses_def kids cs asg initialBuildState_def)
  have l1: "length (cars request) = length (leafFuses request)"
    using arg_cong [OF c, of length] by simp
  have l2: "length (carAssignments request) = length (leafFuses request)"
    using arg_cong [OF a, of length] by simp
  have "carID_assigned (carAssignments request ! i) =
              chargingStationID_assigned (carAssignments request ! i) \<and>
            carID_assigned (carAssignments request ! i) = car_id (cars request ! i) \<and>
            carID_assigned (carAssignments request ! i) = fuse_id (leafFuses request ! i)"
    if i: "i < length (cars request)" for i
  proof -
    have "carAssignments request ! i =
            \<lparr> carID_assigned = ?ids ! i, chargingStationID_assigned = ?ids ! i \<rparr>"
      using i l1 by (subst a) simp
    moreover have "car_id (cars request ! i) = ?ids ! i"
      using i l1 nth_map [of i "cars request" car_id] c by simp
    moreover have "?ids ! i = fuse_id (leafFuses request ! i)"
      using i l1 by simp
    ultimately show ?thesis by simp
  qed
  then have pointwise: "\<forall>i < length (cars request).
            carID_assigned (carAssignments request ! i) =
              chargingStationID_assigned (carAssignments request ! i) \<and>
            carID_assigned (carAssignments request ! i) = car_id (cars request ! i) \<and>
            carID_assigned (carAssignments request ! i) = fuse_id (leafFuses request ! i)"
    by blast
  have l3: "length (cars request) = length (carAssignments request)"
    using l1 l2 by simp
  from l3 l1 pointwise show ?thesis
    by (intro conjI)
qed


theorem cars_correlate_with_leaves_witness:
  "buildOptimizerRequest sampleEnv sampleSetting [] (sampleSite [stationA, stationB]) 3600 None
     = Inr sampleRequest \<and>
   map car_id (cars sampleRequest) = [1, 2, 4] \<and>
   map fuse_id (leafFuses sampleRequest) = [1, 2, 4] \<and>
   map carID_assigned (carAssignments sampleRequest) = [1, 2, 4] \<and>
   map chargingStationID_assigned (carAssignments sampleRequest) = [1, 2, 4]"
  using cars_correlate_with_leaves [OF sample_request] sample_request
  by (simp add: leafFuses_def sampleRequest_def sampleStationFuse_def sampleLeaf_def
      sampleCar_def)

subsection \<open>Topology sanitizer\<close>










lemma pendingAmps_0 [simp]: "pendingAmps env cs 0 processed = 0"
  by (simp add: pendingAmps_def)




lemma subseqs_Cons_mem:
  "ys \<in> set (subseqs xs) \<Longrightarrow> x # ys \<in> set (subseqs (x # xs)) \<and> ys \<in> set (subseqs (x # xs))"
  by (simp add: Let_def)
















lemma sampleEnvCounting_sel [simp]:
  "getChargePointFromID sampleEnvCounting = getChargePointFromID sampleEnv"
  "getChargingStationAmperage sampleEnvCounting = (\<lambda>cs cp cid. 10 * real (length (connectors cs)))"
  "getChargingStationVoltage sampleEnvCounting = (\<lambda>cs. 230)"
  by (simp_all add: sampleEnvCounting_def)


lemma adjust_XPA:
  "adjustSiteLimitation sampleEnv (sampleSite [stationX, stationP, stationA]) None = Inr prunedSite"
  by (simp add: adjustSiteLimitation_def sampleSite_def prunedSite_def stationA_def stationP_def
      stationX_def nth_opt_def isExcludedStation_def splice1_def Let_def sampleConnector_def
      sampleChargePoint_def truthyN_def numeral_2_eq_2 numeral_3_eq_3)
















subsection \<open>Further properties of the sanitizer and the fuse tree\<close>

text \<open>
  After \<^verbatim>\<open>adjustSiteLimitation\<close> the effective capacity of the site in amps is not
  negative (the voltage of the site, which the function leaves as it is, being non-zero).
\<close>

theorem sanitized_capacity_not_negative:
  assumes "adjustSiteLimitation env siteArea excluded = Inr siteArea'"
    and "voltage siteArea \<noteq> 0"
  shows "voltage siteArea' = voltage siteArea \<and> 0 \<le> maximumPower siteArea' / voltage siteArea'"
proof -
  let ?orig = "maximumPower siteArea / voltage siteArea"
  from assms(1) obtain stations amps where
    loop: "stationsLoop env (length (chargingStations siteArea)) excluded
             (chargingStations siteArea) ?orig = Inr (stations, amps)"
    by (auto simp: adjustSiteLimitation_def Let_def split: sum.splits)
  let ?clamped = "if amps < 0 then 0 else amps"
  have nonneg: "0 \<le> ?clamped"
    by simp
  show ?thesis
  proof (cases "?clamped \<noteq> ?orig")
    case True
    with assms(1) loop have
      "siteArea' = siteArea\<lparr>chargingStations := stations, maximumPower := ?clamped * voltage siteArea\<rparr>"
      by (simp add: adjustSiteLimitation_def Let_def)
    with assms(2) nonneg show ?thesis
      by simp
  next
    case False
    with assms(1) loop have "siteArea' = siteArea\<lparr>chargingStations := stations\<rparr>"
      by (simp add: adjustSiteLimitation_def Let_def)
    with False nonneg show ?thesis
      by simp
  qed
qed

theorem sanitized_capacity_not_negative_witness:
  "adjustSiteLimitation sampleEnv (sampleSite [stationX, stationP, stationA]) None = Inr prunedSite \<and>
   voltage (sampleSite [stationX, stationP, stationA]) \<noteq> 0 \<and>
   0 \<le> maximumPower prunedSite / voltage prunedSite"
proof -
  have volt: "voltage (sampleSite [stationX, stationP, stationA]) \<noteq> 0"
    by simp
  from sanitized_capacity_not_negative [OF adjust_XPA volt] adjust_XPA volt
  show ?thesis by (simp add: prunedSite_def)
qed

text \<open>
  \<^verbatim>\<open>adjustSiteLimitation\<close> leaves no station without connectors in the site area.
\<close>

theorem sanitizer_leaves_no_empty_station:
  assumes "adjustSiteLimitation env siteArea excluded = Inr siteArea'"
    and "chargingStation \<in> set (chargingStations siteArea')"
  shows "connectors chargingStation \<noteq> []"
  using adjustSiteLimitation_nonempty [OF assms(1)] assms(2) by blast

theorem sanitizer_leaves_no_empty_station_witness:
  "adjustSiteLimitation sampleEnv (sampleSite [stationX, stationP, stationA]) None = Inr prunedSite \<and>
   stationA \<in> set (chargingStations prunedSite) \<and> connectors stationA \<noteq> []"
proof -
  have mem: "stationA \<in> set (chargingStations prunedSite)"
    by (simp add: prunedSite_def)
  from sanitizer_leaves_no_empty_station [OF adjust_XPA mem] adjust_XPA mem
  show ?thesis by simp
qed

text \<open>
  The capacity of the root fuse is the capacity of the sanitized site in amps divided by
  its number of phases; the phases 2 and 3 carry it when the site has more than one
  phase and 0 otherwise.
\<close>

theorem root_fuse_splits_site_capacity:
  assumes "buildOptimizerRequest env setting profiles0 siteArea secs excluded = Inr request"
  shows "\<exists>sanitized.
           adjustSiteLimitation env siteArea excluded = Inr sanitized \<and>
           fusePhase1 (rootFuse request) =
             maximumPower sanitized / voltage sanitized / real (numberOfPhases sanitized) \<and>
           fusePhase2 (rootFuse request) =
             (if 1 < numberOfPhases sanitized then fusePhase1 (rootFuse request) else 0) \<and>
           fusePhase3 (rootFuse request) =
             (if 1 < numberOfPhases sanitized then fusePhase1 (rootFuse request) else 0)"
proof -
  define profiles where "profiles =
    (if stickyLimitation setting
     then getChargingProfiles env (map cs_id (chargingStations siteArea))
     else profiles0)"
  from assms obtain sanitized where
    adj: "adjustSiteLimitation env siteArea excluded = Inr sanitized"
    by (auto simp: buildOptimizerRequest_def Let_def split: if_splits sum.splits)
  from assms adj obtain st where
    loop: "stationsBuildLoop env setting profiles secs (chargingStations sanitized)
             initialBuildState = Inr st"
    unfolding profiles_def
    by (auto simp: buildOptimizerRequest_def Let_def split: if_splits sum.splits)
  from assms adj loop have
    "fusePhase1 (rootFuse request) =
       maximumPower sanitized / voltage sanitized / real (numberOfPhases sanitized) \<and>
     fusePhase2 (rootFuse request) =
       (if 1 < numberOfPhases sanitized then fusePhase1 (rootFuse request) else 0) \<and>
     fusePhase3 (rootFuse request) =
       (if 1 < numberOfPhases sanitized then fusePhase1 (rootFuse request) else 0)"
    unfolding profiles_def
    by (auto simp: buildOptimizerRequest_def Let_def split: if_splits)
  with adj show ?thesis
    by blast
qed

theorem root_fuse_splits_site_capacity_witness:
  "buildOptimizerRequest sampleEnv sampleSetting [] (sampleSite [stationA, stationB]) 3600 None
     = Inr sampleRequest \<and>
   fusePhase1 (rootFuse sampleRequest) = 46000 / 230 / 3 \<and>
   fusePhase2 (rootFuse sampleRequest) = 46000 / 230 / 3 \<and>
   fusePhase3 (rootFuse sampleRequest) = 46000 / 230 / 3"
  using root_fuse_splits_site_capacity [OF sample_request] sample_request
  by (simp add: sampleRequest_def)

subsection \<open>Further properties of the plan translator\<close>

lemma buildChargingProfile_resolved:
  assumes "buildChargingProfile env car mins = Inr cp"
  shows "\<exists>cs conn chargePoint.
           getChargingStation env (split_tilde (res_name car) ! 0) = Some cs \<and>
           getConnectorFromID env cs (convertToInt env (nth_opt (split_tilde (res_name car)) 1))
             = Some conn \<and>
           getChargePointFromID env cs (conn_chargePointID conn) = Some chargePoint \<and>
           periodsLoop
             (calculateCarConsumption env cs conn
                (getNumberOfConnectedPhases env cs (Some chargePoint) (connectorId conn)))
             (currentPlan car)
             (scheduleBound (startSlot mins)
                (parseInt env (getOcppParameterValue env (split_tilde (res_name car) ! 0)
                   ''ChargingScheduleMaxPeriods'')))
             (startSlot mins) [] 0
           = (chargingSchedulePeriod (chargingSchedule (profile cp)),
              duration (chargingSchedule (profile cp)) div 900)"
  using assms
  by (auto simp: buildChargingProfile_def Let_def split: option.splits prod.splits if_splits)

lemma emitted_limits:
  assumes "buildChargingProfilesFromOptimizerResponse env result mins = Inr profiles"
    and "j < length result"
  shows "\<exists>cs conn chargePoint.
           getChargingStation env (split_tilde (res_name (result ! j)) ! 0) = Some cs \<and>
           getConnectorFromID env cs
             (convertToInt env (nth_opt (split_tilde (res_name (result ! j))) 1)) = Some conn \<and>
           getChargePointFromID env cs (conn_chargePointID conn) = Some chargePoint \<and>
           (\<forall>k < length (chargingSchedulePeriod (chargingSchedule (profile (profiles ! j)))).
              limit (chargingSchedulePeriod (chargingSchedule (profile (profiles ! j))) ! k) =
                calculateCarConsumption env cs conn
                  (getNumberOfConnectedPhases env cs (Some chargePoint) (connectorId conn))
                  (currentPlan (result ! j) ! (startSlot mins + k)))"
proof -
  let ?car = "result ! j"
  let ?cp = "profiles ! j"
  let ?periods = "chargingSchedulePeriod (chargingSchedule (profile ?cp))"
  define m where "m = parseInt env (getOcppParameterValue env (split_tilde (res_name ?car) ! 0)
    ''ChargingScheduleMaxPeriods'')"
  from profiles_pointwise [OF assms(1)] assms(2)
  have car: "buildChargingProfile env ?car mins = Inr ?cp"
    by (simp add: list_all2_conv_all_nth)
  from buildChargingProfile_resolved [OF car] obtain cs conn chargePoint where
    cs: "getChargingStation env (split_tilde (res_name ?car) ! 0) = Some cs" and
    conn: "getConnectorFromID env cs
             (convertToInt env (nth_opt (split_tilde (res_name ?car)) 1)) = Some conn" and
    cpt: "getChargePointFromID env cs (conn_chargePointID conn) = Some chargePoint" and
    run0: "periodsLoop
            (calculateCarConsumption env cs conn
               (getNumberOfConnectedPhases env cs (Some chargePoint) (connectorId conn)))
            (currentPlan ?car) (scheduleBound (startSlot mins) m) (startSlot mins) [] 0
            = (?periods, duration (chargingSchedule (profile ?cp)) div 900)"
    unfolding m_def by (elim exE conjE) simp
  define f where "f = calculateCarConsumption env cs conn
    (getNumberOfConnectedPhases env cs (Some chargePoint) (connectorId conn))"
  have run: "periodsLoop f (currentPlan ?car) (scheduleBound (startSlot mins) m)
               (startSlot mins) [] 0
             = (?periods, duration (chargingSchedule (profile ?cp)) div 900)"
    using run0 by (simp add: f_def)
  have lim: "limit (?periods ! k) = f (currentPlan ?car ! (startSlot mins + k))"
    if k: "k < length ?periods" for k
  proof -
    let ?g = "\<lambda>k. \<lparr> startPeriod = k * 15 * 60,
                     limit = f (currentPlan ?car ! (startSlot mins + k)) \<rparr>"
    have "?periods ! k = map ?g [0..<length ?periods] ! k"
      using periodsLoop_start(2) [OF run] by simp
    also have "\<dots> = ?g k"
      using k by simp
    finally show ?thesis by simp
  qed
  show ?thesis
    apply (rule exI [of _ cs], rule exI [of _ conn], rule exI [of _ chargePoint])
    using cs conn cpt lim by (simp add: f_def)
qed

text \<open>
  On a connector whose station is not on direct current, the \<open>k\<close>-th emitted period
  carries the plan value of its slot multiplied by the number of connected phases of the
  connector, rounded by \<^verbatim>\<open>Utils.roundTo\<close> to 3 decimals.
\<close>

theorem emitted_limit_on_AC:
  assumes "buildChargingProfilesFromOptimizerResponse env result mins = Inr profiles"
    and "j < length result"
  shows "\<exists>cs conn chargePoint.
           getChargingStation env (split_tilde (res_name (result ! j)) ! 0) = Some cs \<and>
           getConnectorFromID env cs
             (convertToInt env (nth_opt (split_tilde (res_name (result ! j))) 1)) = Some conn \<and>
           getChargePointFromID env cs (conn_chargePointID conn) = Some chargePoint \<and>
           (getChargingStationCurrentType env cs None (connectorId conn) \<noteq> Some DC \<longrightarrow>
            (\<forall>k < length (chargingSchedulePeriod (chargingSchedule (profile (profiles ! j)))).
               limit (chargingSchedulePeriod (chargingSchedule (profile (profiles ! j))) ! k) =
                 roundTo env
                   (currentPlan (result ! j) ! (startSlot mins + k) *
                    real (getNumberOfConnectedPhases env cs (Some chargePoint)
                            (connectorId conn)))
                   3))"
proof -
  from emitted_limits [OF assms(1,2)] obtain cs conn chargePoint where
    cs: "getChargingStation env (split_tilde (res_name (result ! j)) ! 0) = Some cs" and
    conn: "getConnectorFromID env cs
             (convertToInt env (nth_opt (split_tilde (res_name (result ! j))) 1)) = Some conn" and
    cpt: "getChargePointFromID env cs (conn_chargePointID conn) = Some chargePoint" and
    lim: "\<forall>k < length (chargingSchedulePeriod (chargingSchedule (profile (profiles ! j)))).
              limit (chargingSchedulePeriod (chargingSchedule (profile (profiles ! j))) ! k) =
                calculateCarConsumption env cs conn
                  (getNumberOfConnectedPhases env cs (Some chargePoint) (connectorId conn))
                  (currentPlan (result ! j) ! (startSlot mins + k))"
    by (elim exE conjE) simp
  show ?thesis
    apply (rule exI [of _ cs], rule exI [of _ conn], rule exI [of _ chargePoint])
    using cs conn cpt lim
    by (simp add: calculateCarConsumption_def)
qed

theorem emitted_limit_on_AC_witness:
  "buildChargingProfilesFromOptimizerResponse sampleEnv sampleResult 60 = Inr [sampleProfile] \<and>
   0 < length sampleResult \<and>
   map limit (chargingSchedulePeriod (chargingSchedule (profile sampleProfile))) =
     [16 * 3, 16 * 3, 0 * 3]"
proof -
  have idx: "0 < length sampleResult" by (simp add: sampleResult_def)
  from emitted_limit_on_AC [OF sampleResult_profiles idx] sampleResult_profiles idx
  show ?thesis
    by (simp add: sampleProfile_def)
qed

lemma sampleEnvDC_sel [simp]:
  "getChargePointFromID sampleEnvDC = getChargePointFromID sampleEnv"
  "getConnectorFromID sampleEnvDC = getConnectorFromID sampleEnv"
  "getChargingStationCurrentType sampleEnvDC = (\<lambda>cs cp cid. Some DC)"
  "getNumberOfConnectedPhases sampleEnvDC = getNumberOfConnectedPhases sampleEnv"
  "roundTo sampleEnvDC = roundTo_example"
  "convertToInt sampleEnvDC = convertToInt sampleEnv"
  "parseInt sampleEnvDC = parseInt sampleEnv"
  "DC_CHARGING_STATION_DEFAULT_EFFICIENCY_PERCENT sampleEnvDC = 80"
  "getChargingStation sampleEnvDC = getChargingStation sampleEnv"
  "getOcppParameterValue sampleEnvDC = getOcppParameterValue sampleEnv"
  "now sampleEnvDC = 90000000"
  by (simp_all add: sampleEnvDC_def)

lemma sampleResultDC_profiles:
  "buildChargingProfilesFromOptimizerResponse sampleEnvDC sampleResultDC 60 = Inr [sampleProfileDC]"
  by (simp add: sampleResultDC_def sampleProfileDC_def buildChargingProfile_def nth_opt_def
      decimal_def stationE_def sampleConnector_def sampleChargePoint_def truthyN_def
      startSlot_def scheduleBound_def periodsLoop.simps calculateCarConsumption_def
      roundTo_example_def)

text \<open>
  On a connector of a direct-current station whose charge point declares an efficiency
  of \<open>e\<close> percent, \<open>e\<close> positive, the \<open>k\<close>-th emitted period carries the plan value of
  its slot multiplied by \<open>e / 100\<close> and by the number of connected phases, rounded to
  3 decimals: 16 A on three phases at 90 percent give 43.2 A.
\<close>

theorem emitted_limit_on_DC_with_efficiency:
  assumes "buildChargingProfilesFromOptimizerResponse env result mins = Inr profiles"
    and "j < length result"
  shows "\<exists>cs conn chargePoint.
           getChargingStation env (split_tilde (res_name (result ! j)) ! 0) = Some cs \<and>
           getConnectorFromID env cs
             (convertToInt env (nth_opt (split_tilde (res_name (result ! j))) 1)) = Some conn \<and>
           getChargePointFromID env cs (conn_chargePointID conn) = Some chargePoint \<and>
           (\<forall>e. getChargingStationCurrentType env cs None (connectorId conn) = Some DC \<and>
                efficiency chargePoint = Some e \<and> 0 < e \<longrightarrow>
              (\<forall>k < length (chargingSchedulePeriod (chargingSchedule (profile (profiles ! j)))).
                 limit (chargingSchedulePeriod (chargingSchedule (profile (profiles ! j))) ! k) =
                   roundTo env
                     (currentPlan (result ! j) ! (startSlot mins + k) * e / 100 *
                      real (getNumberOfConnectedPhases env cs (Some chargePoint)
                              (connectorId conn)))
                     3))"
proof -
  from emitted_limits [OF assms(1,2)] obtain cs conn chargePoint where
    cs: "getChargingStation env (split_tilde (res_name (result ! j)) ! 0) = Some cs" and
    conn: "getConnectorFromID env cs
             (convertToInt env (nth_opt (split_tilde (res_name (result ! j))) 1)) = Some conn" and
    cpt: "getChargePointFromID env cs (conn_chargePointID conn) = Some chargePoint" and
    lim: "\<forall>k < length (chargingSchedulePeriod (chargingSchedule (profile (profiles ! j)))).
              limit (chargingSchedulePeriod (chargingSchedule (profile (profiles ! j))) ! k) =
                calculateCarConsumption env cs conn
                  (getNumberOfConnectedPhases env cs (Some chargePoint) (connectorId conn))
                  (currentPlan (result ! j) ! (startSlot mins + k))"
    by (elim exE conjE) simp
  show ?thesis
    apply (rule exI [of _ cs], rule exI [of _ conn], rule exI [of _ chargePoint])
    using cs conn cpt lim
    by (simp add: calculateCarConsumption_def)
qed

theorem emitted_limit_on_DC_with_efficiency_witness:
  "buildChargingProfilesFromOptimizerResponse sampleEnvDC sampleResultDC 60
     = Inr [sampleProfileDC] \<and>
   0 < length sampleResultDC \<and>
   efficiency (hd (chargePoints stationE)) = Some 90 \<and>
   map limit (chargingSchedulePeriod (chargingSchedule (profile sampleProfileDC))) =
     [16 * 3 * 0.9, 16 * 3 * 0.9, 0]"
proof -
  have idx: "0 < length sampleResultDC" by (simp add: sampleResultDC_def)
  from emitted_limit_on_DC_with_efficiency [OF sampleResultDC_profiles idx]
    sampleResultDC_profiles idx
  show ?thesis
    by (simp add: sampleProfileDC_def stationE_def sampleChargePoint_def)
qed

end
